theory Spec2Isabelle
  imports Main
begin

text \<open>
  A shallow embedding of \<^verbatim>\<open>superset/sql/parse.py\<close>: the \<open>Table\<close> value type, the
  KQL splitter, the two statement classes, the script class and the table extraction on
  top of the sqlglot library.
\<close>

section \<open>Python string primitives used by the module\<close>

text \<open>
  Python strings are modelled as HOL strings; a HOL character stands for the code point
  with the same number, so the model covers texts whose code points are below 256.
\<close>

definition py_norm_index :: "nat \<Rightarrow> int \<Rightarrow> nat" where
  "py_norm_index n a = (if a < 0 then nat (max (a + int n) 0) else min (nat a) n)"

text \<open>\<open>s[a:b]\<close>: negative bounds count from the end, both bounds are clamped.\<close>

definition py_slice :: "string \<Rightarrow> int \<Rightarrow> int \<Rightarrow> string" where
  "py_slice s a b =
     (let lo = py_norm_index (length s) a; hi = py_norm_index (length s) b
      in take (hi - lo) (drop lo s))"

text \<open>\<open>s[i]\<close>: a negative index counts from the end; \<open>None\<close> is IndexError.\<close>

definition py_getitem :: "string \<Rightarrow> int \<Rightarrow> char option" where
  "py_getitem s i =
     (let j = (if i < 0 then i + int (length s) else i)
      in if 0 \<le> j \<and> j < int (length s) then Some (s ! nat j) else None)"

definition endswith :: "string \<Rightarrow> string \<Rightarrow> bool" where
  "endswith s suffix = (length suffix \<le> length s \<and> drop (length s - length suffix) s = suffix)"

definition startswith :: "string \<Rightarrow> string \<Rightarrow> bool" where
  "startswith s prefix = (take (length prefix) s = prefix)"

section \<open>The KQL splitter\<close>

datatype KQLSplitState =
    OUTSIDE_STRING
  | INSIDE_SINGLE_QUOTED_STRING
  | INSIDE_DOUBLE_QUOTED_STRING
  | INSIDE_MULTILINE_STRING

definition semicolon :: char where "semicolon = CHR 0x3B"
definition single_quote :: char where "single_quote = CHR 0x27"
definition double_quote :: char where "double_quote = CHR 0x22"
definition backtick :: char where "backtick = CHR 0x60"
definition backslash :: char where "backslash = CHR 0x5C"

text \<open>
  The loop variables of \<open>split_kql\<close>: \<open>state\<close>, \<open>statement_start\<close> and \<open>statements\<close>.
\<close>

type_synonym kql_loop = "KQLSplitState \<times> nat \<times> string list"

text \<open>
  One iteration of \<open>for i, character in enumerate(query)\<close>. The look-behind
  \<open>query[i - 1]\<close> is a Python index (at \<open>i = 0\<close> it reads the last character) and
  \<open>query[i - 2 : i]\<close> a Python slice.
\<close>

definition kql_body :: "string \<Rightarrow> nat \<times> char \<Rightarrow> kql_loop \<Rightarrow> kql_loop" where
  "kql_body query ic s =
     (case ic of (i, character) \<Rightarrow>
      case s of (state, statement_start, statements) \<Rightarrow>
        if state = OUTSIDE_STRING then
          (if character = semicolon then
             (state, i + 1, statements @ [py_slice query (int statement_start) (int i)])
           else if character = single_quote then
             (INSIDE_SINGLE_QUOTED_STRING, statement_start, statements)
           else if character = double_quote then
             (INSIDE_DOUBLE_QUOTED_STRING, statement_start, statements)
           else if character = backtick
                   \<and> py_slice query (int i - 2) (int i) = [backtick, backtick] then
             (INSIDE_MULTILINE_STRING, statement_start, statements)
           else s)
        else if state = INSIDE_SINGLE_QUOTED_STRING \<and> character = single_quote
                \<and> py_getitem query (int i - 1) \<noteq> Some backslash then
          (OUTSIDE_STRING, statement_start, statements)
        else if state = INSIDE_DOUBLE_QUOTED_STRING \<and> character = double_quote
                \<and> py_getitem query (int i - 1) \<noteq> Some backslash then
          (OUTSIDE_STRING, statement_start, statements)
        else if state = INSIDE_MULTILINE_STRING \<and> character = backtick
                \<and> py_slice query (int i - 2) (int i) = [backtick, backtick] then
          (OUTSIDE_STRING, statement_start, statements)
        else s)"

definition kql_query :: "string \<Rightarrow> string" where
  "kql_query kql = (if endswith kql [semicolon] then kql else kql @ [semicolon])"

definition kql_init :: kql_loop where
  "kql_init = (OUTSIDE_STRING, 0, [])"

definition split_kql :: "string \<Rightarrow> string list" where
  "split_kql kql =
     (let query = kql_query kql
      in snd (snd (fold (kql_body query) (enumerate 0 query) kql_init)))"


text \<open>The loop variables after the first \<open>k\<close> iterations, and the state before character \<open>k\<close>.\<close>

definition kql_run :: "string \<Rightarrow> nat \<Rightarrow> kql_loop" where
  "kql_run query k = fold (kql_body query) (take k (enumerate 0 query)) kql_init"

definition kql_state_before :: "string \<Rightarrow> nat \<Rightarrow> KQLSplitState" where
  "kql_state_before query k = fst (kql_run query k)"

definition kql_final_state :: "string \<Rightarrow> KQLSplitState" where
  "kql_final_state kql = kql_state_before kql (length kql)"

text \<open>
  The iterations of the loop over a text that append a segment: the positions where the
  loop meets a separator in the state \<open>OUTSIDE_STRING\<close>.
\<close>

definition kql_appends :: "string \<Rightarrow> nat" where
  "kql_appends kql =
     length (filter (\<lambda>i. kql ! i = semicolon \<and> kql_state_before kql i = OUTSIDE_STRING)
               [0..<length kql])"

section \<open>String literals, in the words of the specification\<close>

text \<open>
  The specification describes the literals of a text on their own, apart from the loop
  of \<open>split_kql\<close>: outside a literal a \<open>'\<close> opens a single-quoted literal, a \<open>"\<close> a
  double-quoted one and a backtick sequence a multi-line one; a quoted literal ends
  at the matching quote that is not immediately preceded by a backslash, a multi-line
  literal at a backtick sequence. A quote opens a literal whether or not a backslash
  precedes it, and the backtick sequence is three backticks: the character and the two
  before it. \<open>literal_step st before c\<close> is the state after the character \<open>c\<close>, where
  \<open>before\<close> holds the characters before \<open>c\<close>, the nearest first.
\<close>

datatype literal = Outside | InSingleQuoted | InDoubleQuoted | InMultilineQuoted






section \<open>The keyword ANALYZE, in the words of the specification\<close>

text \<open>
  \<open>EXPLAIN ANALYZE\<close> is a keyword in any letter case. \<open>same_letter c u\<close> holds when
  \<open>c\<close> is the character \<open>u\<close> or, for an upper-case letter \<open>u\<close>, its lower-case form;
  \<open>begins_with_analyze s\<close> holds when the first seven characters of \<open>s\<close> spell
  \<open>ANALYZE\<close>.
\<close>

definition same_letter :: "char \<Rightarrow> char \<Rightarrow> bool" where
  "same_letter c u \<longleftrightarrow>
     c = u \<or> (u \<in> set ''ABCDEFGHIJKLMNOPQRSTUVWXYZ'' \<and> (of_char c :: nat) = of_char u + 32)"

definition begins_with_analyze :: "string \<Rightarrow> bool" where
  "begins_with_analyze s \<longleftrightarrow> list_all2 same_letter (take 7 s) ''ANALYZE''"

section \<open>Table\<close>

record Table =
  table :: string
  schema :: "string option"
  catalog :: "string option"

text \<open>
  \<open>urllib.parse.quote(part, safe="")\<close>: the text is encoded as UTF-8 and every byte
  outside letters, digits and \<open>_.-~\<close> becomes \<open>%XX\<close> in upper-case hexadecimal.
\<close>

definition utf8_encode :: "char \<Rightarrow> char list" where
  "utf8_encode c =
     (let n = (of_char c :: nat)
      in if n < 128 then [c] else [char_of (192 + n div 64), char_of (128 + n mod 64)])"

definition always_safe :: "char \<Rightarrow> bool" where
  "always_safe c \<longleftrightarrow>
     c \<in> set ''ABCDEFGHIJKLMNOPQRSTUVWXYZabcdefghijklmnopqrstuvwxyz0123456789_.-~''"

definition hex_digit :: "nat \<Rightarrow> char" where
  "hex_digit n = ''0123456789ABCDEF'' ! (n mod 16)"

definition quote_byte :: "char \<Rightarrow> string" where
  "quote_byte b =
     (if always_safe b then [b]
      else [CHR ''%'', hex_digit ((of_char b :: nat) div 16), hex_digit ((of_char b :: nat) mod 16)])"

definition quote :: "string \<Rightarrow> string" where
  "quote part = concat (map quote_byte (concat (map utf8_encode part)))"

text \<open>\<open>s.replace(".", "%2E")\<close>\<close>

definition replace_dot :: "string \<Rightarrow> string" where
  "replace_dot s = concat (map (\<lambda>c. if c = CHR ''.'' then ''%2E'' else [c]) s)"

fun join :: "string \<Rightarrow> string list \<Rightarrow> string" where
  "join sep [] = []"
| "join sep [x] = x"
| "join sep (x # y # ys) = x @ sep @ join sep (y # ys)"

text \<open>
  \<open>Table.__str__\<close>. The filter \<open>if part\<close> drops \<open>None\<close> and the empty string alike.
\<close>

definition Table_str :: "Table \<Rightarrow> string" where
  "Table_str self =
     join ''.''
       (map (\<lambda>part. replace_dot (quote part))
          [part. Some part \<leftarrow> [catalog self, schema self, Some (table self)], part \<noteq> []])"

text \<open>\<open>Table.__eq__\<close>, for another \<open>Table\<close>.\<close>

definition Table_eq :: "Table \<Rightarrow> Table \<Rightarrow> bool" where
  "Table_eq self other \<longleftrightarrow> Table_str self = Table_str other"

text \<open>
  The class defines no \<open>__hash__\<close>, so \<open>@dataclass(eq=True, frozen=True)\<close> generates
  one: the hash of the tuple of the fields, in declaration order. \<open>Table_hash_key\<close> is
  that tuple; the hash of a table is Python's \<open>hash\<close> of it.
\<close>

definition Table_hash_key :: "Table \<Rightarrow> string \<times> string option \<times> string option" where
  "Table_hash_key self = (table self, schema self, catalog self)"

definition Table_hash :: "(string \<times> string option \<times> string option \<Rightarrow> int) \<Rightarrow> Table \<Rightarrow> int" where
  "Table_hash py_hash self = py_hash (Table_hash_key self)"


section \<open>The sqlglot library\<close>

datatype Dialects =
    HIVE | PRESTO | BIGQUERY | CLICKHOUSE | POSTGRES | MYSQL | DATABRICKS | DRILL | DUCKDB
  | SQLITE | TSQL | ORACLE | DORIS | REDSHIFT | SNOWFLAKE | SPARK | STARROCKS | TERADATA | TRINO

definition SQLGLOT_DIALECTS :: "string \<rightharpoonup> Dialects" where
  "SQLGLOT_DIALECTS = map_of
     [(''ascend'', HIVE),
      (''awsathena'', PRESTO),
      (''bigquery'', BIGQUERY),
      (''clickhouse'', CLICKHOUSE),
      (''clickhousedb'', CLICKHOUSE),
      (''cockroachdb'', POSTGRES),
      (''couchbase'', MYSQL),
      (''databricks'', DATABRICKS),
      (''drill'', DRILL),
      (''duckdb'', DUCKDB),
      (''gsheets'', SQLITE),
      (''hana'', POSTGRES),
      (''hive'', HIVE),
      (''mssql'', TSQL),
      (''mysql'', MYSQL),
      (''netezza'', POSTGRES),
      (''oracle'', ORACLE),
      (''postgresql'', POSTGRES),
      (''presto'', PRESTO),
      (''pydoris'', DORIS),
      (''redshift'', REDSHIFT),
      (''shillelagh'', SQLITE),
      (''snowflake'', SNOWFLAKE),
      (''spark'', SPARK),
      (''sqlite'', SQLITE),
      (''starrocks'', STARROCKS),
      (''superset'', SQLITE),
      (''teradatasql'', TERADATA),
      (''trino'', TRINO),
      (''vertica'', POSTGRES)]"

text \<open>
  The expression classes the module tests with \<open>isinstance\<close>; every other class is
  \<open>exp_Other\<close> with its name. A node has the class \<open>c\<close> when \<open>isinstance(node, c)\<close>
  holds.
\<close>

datatype exp_class =
    exp_Insert | exp_Update | exp_Delete | exp_Merge | exp_Create | exp_Drop
  | exp_TruncateTable | exp_Command | exp_Describe | exp_Table | exp_Literal
  | exp_SetItem | exp_EQ | exp_Other string

text \<open>An argument of an expression node: absent, a string or a child expression.\<close>

datatype 'e arg = ArgNone | ArgStr string | ArgExp 'e

datatype ScopeType = ROOT | SUBQUERY | DERIVED_TABLE | CTE | UNION | UDTF

text \<open>
  A \<open>Scope\<close> of \<open>sqlglot.optimizer.scope\<close>, as far as the module reads it: the parent
  scope, the scope type and the sources, a dictionary from names to table expressions or
  scopes, kept as its items. The library's scopes refer to each other (a scope to its
  parent, the parent to the scopes it binds); here each reference holds the value it
  points to, which is all the module reads: \<open>scope.parent.sources\<close> and the type of the
  scopes bound there.
\<close>

datatype 'e Scope =
    Scope (parent: "'e Scope option") (scope_type: ScopeType) (sources: "(string \<times> 'e source) list")
and 'e source = SourceExp 'e | SourceScope "'e Scope"

text \<open>
  The exceptions of the library: \<open>sqlglot.errors.ParseError\<close>, the one the module
  catches, and any other exception, with its name.
\<close>

datatype sqlglot_error = ParseError | OtherException string

text \<open>
  The library is not part of the repository: its functions are parameters of the model.
  \<open>'e\<close> is the type of expression nodes (\<open>exp.Expression\<close>). \<open>parse\<close> is
  \<open>sqlglot.parse\<close> (a list of optional trees, or an exception), \<open>walk\<close> the nodes of a
  tree in the order of \<open>Expression.walk\<close>, \<open>exp_type\<close> the class of a node,
  \<open>exp_this\<close> and \<open>exp_expression\<close> the arguments \<open>this\<close> and \<open>expression\<close>,
  \<open>exp_name\<close>, \<open>exp_db\<close> and \<open>exp_catalog\<close> the properties \<open>name\<close>, \<open>db\<close> and
  \<open>catalog\<close>, and \<open>exp_sql\<close> the generator \<open>Expression.sql()\<close>.
\<close>

record 'e sqlglot =
  parse :: "string \<Rightarrow> Dialects option \<Rightarrow> sqlglot_error + 'e option list"
  parse_one :: "string \<Rightarrow> Dialects option \<Rightarrow> sqlglot_error + 'e"
  traverse_scope :: "'e \<Rightarrow> sqlglot_error + 'e Scope list"
  walk :: "'e \<Rightarrow> 'e list"
  exp_type :: "'e \<Rightarrow> exp_class"
  exp_this :: "'e \<Rightarrow> 'e arg"
  exp_expression :: "'e \<Rightarrow> 'e arg"
  exp_name :: "'e \<Rightarrow> string"
  exp_db :: "'e \<Rightarrow> string"
  exp_catalog :: "'e \<Rightarrow> string"
  exp_sql :: "'e \<Rightarrow> string"

text \<open>\<open>Expression.find_all\<close> and \<open>Expression.find\<close> filter the walk by class.\<close>

definition find_all :: "'e sqlglot \<Rightarrow> 'e \<Rightarrow> exp_class \<Rightarrow> 'e list" where
  "find_all G e c = filter (\<lambda>node. exp_type G node = c) (walk G e)"

definition find :: "'e sqlglot \<Rightarrow> 'e \<Rightarrow> exp_class \<Rightarrow> 'e option" where
  "find G e c = (case find_all G e c of [] \<Rightarrow> None | node # _ \<Rightarrow> Some node)"

section \<open>Errors\<close>

text \<open>
  \<open>SupersetParseError\<close> carries its message; \<open>AttributeError\<close> is an attribute read on
  \<open>None\<close> or on a string; \<open>Uncaught\<close> is an exception of the library that the module
  does not catch.
\<close>

datatype error = SupersetParseError string | AttributeError | Uncaught sqlglot_error

definition UnparseableQuery :: error where
  "UnparseableQuery = SupersetParseError ''Unable to split query''"

definition NotSingleStatement :: error where
  "NotSingleStatement = SupersetParseError ''SQLStatement should have exactly one statement''"

definition InvalidEngine :: "string \<Rightarrow> error" where
  "InvalidEngine engine = SupersetParseError (''Invalid engine: '' @ engine)"

text \<open>A list comprehension whose elements may raise: the first exception ends it.\<close>

fun sequence :: "(error + 'a) list \<Rightarrow> error + 'a list" where
  "sequence [] = Inr []"
| "sequence (x # xs) =
     (case x of Inl e \<Rightarrow> Inl e
      | Inr v \<Rightarrow> (case sequence xs of Inl e \<Rightarrow> Inl e | Inr vs \<Rightarrow> Inr (v # vs)))"

section \<open>Table extraction\<close>

definition is_cte :: "'e sqlglot \<Rightarrow> 'e \<Rightarrow> 'e Scope \<Rightarrow> bool" where
  "is_cte G source scope =
     (let parent_sources = (case parent scope of Some p \<Rightarrow> sources p | None \<Rightarrow> []);
          ctes_in_scope =
            [name. (name, SourceScope parent_scope) \<leftarrow> parent_sources,
                   scope_type parent_scope = CTE]
      in exp_name G source \<in> set ctes_in_scope)"

text \<open>The \<open>Table\<close> built from a source in the last lines of \<open>extract_tables_from_statement\<close>.\<close>

definition source_table :: "'e sqlglot \<Rightarrow> 'e \<Rightarrow> Table" where
  "source_table G source =
     \<lparr>table = exp_name G source,
      schema = (if exp_db G source \<noteq> [] then Some (exp_db G source) else None),
      catalog = (if exp_catalog G source \<noteq> [] then Some (exp_catalog G source) else None)\<rparr>"

text \<open>\<open>f"{literal.this}"\<close>: a string as it is, an expression through \<open>sql()\<close>.\<close>

definition format_arg :: "'e sqlglot \<Rightarrow> 'e arg \<Rightarrow> string" where
  "format_arg G a = (case a of ArgNone \<Rightarrow> ''None'' | ArgStr s \<Rightarrow> s | ArgExp e \<Rightarrow> exp_sql G e)"

text \<open>The sources of the general case: the table expressions of every scope that are no CTE.\<close>

definition scope_sources :: "'e sqlglot \<Rightarrow> 'e Scope list \<Rightarrow> 'e list" where
  "scope_sources G scopes =
     concat (map (\<lambda>scope.
        [source. (name, SourceExp source) \<leftarrow> sources scope,
                 exp_type G source = exp_Table \<and> \<not> is_cte G source scope]) scopes)"

definition extract_tables_from_statement ::
    "'e sqlglot \<Rightarrow> 'e \<Rightarrow> Dialects option \<Rightarrow> error + Table set" where
  "extract_tables_from_statement G statement dialect =
     (if exp_type G statement = exp_Describe then
        Inr (set (map (source_table G) (find_all G statement exp_Table)))
      else if exp_type G statement = exp_Command then
        (case find G statement exp_Literal of
           None \<Rightarrow> Inr {}
         | Some literal \<Rightarrow>
             (case parse_one G (''SELECT '' @ format_arg G (exp_this G literal)) dialect of
                Inl ParseError \<Rightarrow> Inr {}
              | Inl ex \<Rightarrow> Inl (Uncaught ex)
              | Inr pseudo_query \<Rightarrow>
                  Inr (set (map (source_table G) (find_all G pseudo_query exp_Table)))))
      else
        (case traverse_scope G statement of
           Inl ex \<Rightarrow> Inl (Uncaught ex)
         | Inr scopes \<Rightarrow> Inr (set (map (source_table G) (scope_sources G scopes)))))"


section \<open>Statements\<close>

text \<open>
  The attributes \<open>self._parsed\<close>, \<open>self.engine\<close> and \<open>self.tables\<close> set by
  \<open>BaseSQLStatement.__init__\<close>; \<open>'r\<close> is the internal representation.
  \<open>SQLStatement\<close> adds \<open>self._dialect\<close>.
\<close>

record 'r BaseSQLStatement =
  self_parsed :: 'r
  self_engine :: string
  self_tables :: "Table set"

record 'e SQLStatement = "'e BaseSQLStatement" +
  self_dialect :: "Dialects option"

type_synonym KustoKQLStatement = "string BaseSQLStatement"

text \<open>The constructor's argument \<open>statement: str | InternalRepresentation\<close>.\<close>

datatype 'r statement_arg = FromText string | FromParsed 'r

datatype setting = SettingStr string | SettingBool bool


subsection \<open>SQLStatement\<close>

definition SQLStatement_parse_statement :: "'e sqlglot \<Rightarrow> string \<Rightarrow> string \<Rightarrow> error + 'e" where
  "SQLStatement_parse_statement G statement engine =
     (let dialect = SQLGLOT_DIALECTS engine
      in case parse G statement dialect of
           Inl ParseError \<Rightarrow> Inl UnparseableQuery
         | Inl ex \<Rightarrow> Inl (Uncaught ex)
         | Inr statements \<Rightarrow>
             (let statements = [statement. Some statement \<leftarrow> statements]
              in if length statements \<noteq> 1 then Inl NotSingleStatement
                 else Inr (statements ! 0)))"

definition SQLStatement_extract_tables_from_statement ::
    "'e sqlglot \<Rightarrow> 'e \<Rightarrow> string \<Rightarrow> error + Table set" where
  "SQLStatement_extract_tables_from_statement G parsed engine =
     (let dialect = SQLGLOT_DIALECTS engine
      in extract_tables_from_statement G parsed dialect)"

definition SQLStatement_init ::
    "'e sqlglot \<Rightarrow> 'e statement_arg \<Rightarrow> string \<Rightarrow> error + 'e SQLStatement" where
  "SQLStatement_init G statement engine =
     (case (case statement of
              FromText text \<Rightarrow> SQLStatement_parse_statement G text engine
            | FromParsed tree \<Rightarrow> Inr tree) of
        Inl ex \<Rightarrow> Inl ex
      | Inr parsed \<Rightarrow>
          (case SQLStatement_extract_tables_from_statement G parsed engine of
             Inl ex \<Rightarrow> Inl ex
           | Inr tables \<Rightarrow>
               Inr \<lparr>self_parsed = parsed, self_engine = engine, self_tables = tables,
                    self_dialect = SQLGLOT_DIALECTS engine\<rparr>))"

definition SQLStatement_split_query ::
    "'e sqlglot \<Rightarrow> string \<Rightarrow> string \<Rightarrow> error + 'e SQLStatement list" where
  "SQLStatement_split_query G query engine =
     (let dialect = SQLGLOT_DIALECTS engine
      in case parse G query dialect of
           Inl ParseError \<Rightarrow> Inl UnparseableQuery
         | Inl ex \<Rightarrow> Inl (Uncaught ex)
         | Inr statements \<Rightarrow>
             sequence [SQLStatement_init G (FromParsed statement) engine.
                       Some statement \<leftarrow> statements])"

text \<open>The test of one node in the loop of \<open>SQLStatement.is_mutating\<close>.\<close>

definition mutating_node :: "'e sqlglot \<Rightarrow> 'e \<Rightarrow> bool" where
  "mutating_node G node \<longleftrightarrow>
     exp_type G node \<in> {exp_Insert, exp_Update, exp_Delete, exp_Merge, exp_Create, exp_Drop,
                        exp_TruncateTable}
     \<or> (exp_type G node = exp_Command \<and> exp_name G node = ''ALTER'')"

text \<open>\<open>str.upper\<close> on the ASCII letters, which decide a comparison with an ASCII text.\<close>

definition upper_char :: "char \<Rightarrow> char" where
  "upper_char c =
     (if c \<in> set ''abcdefghijklmnopqrstuvwxyz'' then char_of ((of_char c :: nat) - 32) else c)"

definition upper :: "string \<Rightarrow> string" where
  "upper s = map upper_char s"

text \<open>
  The body of \<open>SQLStatement.is_mutating\<close>; \<open>recurse\<close> is the method itself, called on
  the statement built from the text after \<open>ANALYZE\<close>.
\<close>

definition is_mutating_body ::
    "('e SQLStatement \<Rightarrow> (error + bool) option) \<Rightarrow> 'e sqlglot \<Rightarrow> 'e SQLStatement
     \<Rightarrow> (error + bool) option" where
  "is_mutating_body recurse G self =
     (if \<exists>node \<in> set (walk G (self_parsed self)). mutating_node G node then Some (Inr True)
      else if self_dialect self = Some POSTGRES
              \<and> exp_type G (self_parsed self) = exp_Command
              \<and> exp_name G (self_parsed self) = ''EXPLAIN'' then
        (case exp_expression G (self_parsed self) of
           ArgExp expr \<Rightarrow>
             if startswith (upper (exp_name G expr)) ''ANALYZE '' then
               (let analyzed_sql = drop (length ''ANALYZE '') (exp_name G expr)
                in case SQLStatement_init G (FromText analyzed_sql) (self_engine self) of
                     Inl ex \<Rightarrow> Some (Inl ex)
                   | Inr statement \<Rightarrow> recurse statement)
             else Some (Inr False)
         | _ \<Rightarrow> Some (Inl AttributeError))
      else Some (Inr False))"

text \<open>
  The method calls itself on a statement parsed by the library, so the depth of the
  recursion is bounded by fuel: \<open>None\<close> is a recursion deeper than the fuel.
\<close>

primrec SQLStatement_is_mutating ::
    "nat \<Rightarrow> 'e sqlglot \<Rightarrow> 'e SQLStatement \<Rightarrow> (error + bool) option" where
  "SQLStatement_is_mutating 0 G = is_mutating_body (\<lambda>statement. None) G"
| "SQLStatement_is_mutating (Suc fuel) G = is_mutating_body (SQLStatement_is_mutating fuel G) G"




subsection \<open>KustoKQLStatement\<close>

text \<open>\<open>str.strip()\<close>: the white space of Python among the code points below 256.\<close>

definition isspace :: "char \<Rightarrow> bool" where
  "isspace c \<longleftrightarrow> (of_char c :: nat) \<in> {9, 10, 11, 12, 13, 28, 29, 30, 31, 32, 133, 160}"

definition strip :: "string \<Rightarrow> string" where
  "strip s = rev (dropWhile isspace (rev (dropWhile isspace s)))"

datatype log_level = WARNING

type_synonym log = "(log_level \<times> string) list"

definition KustoKQLStatement_parse_statement :: "string \<Rightarrow> string \<Rightarrow> error + string" where
  "KustoKQLStatement_parse_statement statement engine =
     (if engine \<noteq> ''kustokql'' then Inl (InvalidEngine engine)
      else
        (let statements = split_kql statement
         in if length statements \<noteq> 1 then Inl NotSingleStatement
            else Inr (strip (statements ! 0))))"

text \<open>The logger is state: the method returns the log with its warning appended.\<close>

definition table_extraction_warning :: "log_level \<times> string" where
  "table_extraction_warning =
     (WARNING,
      ''Kusto KQL doesn't support table extraction. This means that data access ''
      @ ''roles will not be enforced by Superset in the database.'')"

definition KustoKQLStatement_extract_tables_from_statement ::
    "string \<Rightarrow> string \<Rightarrow> log \<Rightarrow> Table set \<times> log" where
  "KustoKQLStatement_extract_tables_from_statement parsed engine lg =
     ({}, lg @ [table_extraction_warning])"

text \<open>
  The internal representation is a string, so the constructor's \<open>isinstance(statement, str)\<close>
  holds for every argument and the text is always parsed.
\<close>

definition KustoKQLStatement_init ::
    "string \<Rightarrow> string \<Rightarrow> log \<Rightarrow> (error + KustoKQLStatement) \<times> log" where
  "KustoKQLStatement_init statement engine lg =
     (case KustoKQLStatement_parse_statement statement engine of
        Inl ex \<Rightarrow> (Inl ex, lg)
      | Inr parsed \<Rightarrow>
          (case KustoKQLStatement_extract_tables_from_statement parsed engine lg of
             (tables, lg') \<Rightarrow> (Inr \<lparr>self_parsed = parsed, self_engine = engine, self_tables = tables\<rparr>,
                              lg')))"

text \<open>\<open>[cls(statement, engine) for statement in ...]\<close>, the log threaded through.\<close>

fun KustoKQLStatement_init_all ::
    "string list \<Rightarrow> string \<Rightarrow> log \<Rightarrow> (error + KustoKQLStatement list) \<times> log" where
  "KustoKQLStatement_init_all [] engine lg = (Inr [], lg)"
| "KustoKQLStatement_init_all (statement # rest) engine lg =
     (case KustoKQLStatement_init statement engine lg of
        (Inl ex, lg') \<Rightarrow> (Inl ex, lg')
      | (Inr s, lg') \<Rightarrow>
          (case KustoKQLStatement_init_all rest engine lg' of
             (Inl ex, lg'') \<Rightarrow> (Inl ex, lg'')
           | (Inr ss, lg'') \<Rightarrow> (Inr (s # ss), lg'')))"

definition KustoKQLStatement_split_query ::
    "string \<Rightarrow> string \<Rightarrow> log \<Rightarrow> (error + KustoKQLStatement list) \<times> log" where
  "KustoKQLStatement_split_query query engine lg =
     KustoKQLStatement_init_all (split_kql query) engine lg"

definition KustoKQLStatement_format :: "KustoKQLStatement \<Rightarrow> string" where
  "KustoKQLStatement_format self = self_parsed self"

definition KustoKQLStatement_is_mutating :: "KustoKQLStatement \<Rightarrow> bool" where
  "KustoKQLStatement_is_mutating self \<longleftrightarrow>
     startswith (self_parsed self) ''.'' \<and> \<not> startswith (self_parsed self) ''.show''"

section \<open>Scripts\<close>

text \<open>
  \<open>SQLScript\<close> holds the statements of one class; the class's \<open>split_query\<close> and the
  statements' \<open>get_settings\<close> are the methods the script calls, passed as arguments.
\<close>

record 's SQLScript =
  statements :: "'s list"





section \<open>A stub of the library\<close>

text \<open>
  The examples run the module on a small stand-in for sqlglot: trees that carry the
  attributes the module reads, and a parser that knows a handful of texts.
\<close>

datatype ast =
  Ast (ast_type: exp_class) (ast_name: string) (ast_db: string) (ast_catalog: string)
      (ast_sql: string) (ast_this: "ast arg") (ast_expression: "ast arg")
      (ast_children: "ast list")

fun ast_walk :: "ast \<Rightarrow> ast list" where
  "ast_walk (Ast t n d c s th ex children) =
     Ast t n d c s th ex children # concat (map ast_walk children)"

definition ast_identifier :: "string \<Rightarrow> ast" where
  "ast_identifier n = Ast (exp_Other ''Identifier'') n [] [] n (ArgStr n) ArgNone []"

definition ast_table :: "string \<Rightarrow> ast" where
  "ast_table n = Ast exp_Table n [] [] n (ArgExp (ast_identifier n)) ArgNone [ast_identifier n]"

definition ast_column :: "string \<Rightarrow> ast" where
  "ast_column n =
     Ast (exp_Other ''Column'') n [] [] n (ArgExp (ast_identifier n)) ArgNone [ast_identifier n]"

definition ast_string :: "string \<Rightarrow> ast" where
  "ast_string v = Ast exp_Literal v [] [] ([single_quote] @ v @ [single_quote]) (ArgStr v) ArgNone []"

definition ast_number :: "string \<Rightarrow> ast" where
  "ast_number v = Ast exp_Literal v [] [] v (ArgStr v) ArgNone []"

definition ast_star :: ast where
  "ast_star = Ast (exp_Other ''Star'') ''*'' [] [] ''*'' ArgNone ArgNone []"

text \<open>\<open>DELETE FROM t\<close>\<close>

definition tree_delete :: ast where
  "tree_delete =
     Ast exp_Delete [] [] [] ''DELETE FROM t'' (ArgExp (ast_table ''t'')) ArgNone [ast_table ''t'']"

text \<open>A statement of class \<open>c\<close> on the table \<open>t\<close>, with its text.\<close>

definition tree_on_t :: "exp_class \<Rightarrow> string \<Rightarrow> ast" where
  "tree_on_t c text = Ast c [] [] [] text (ArgExp (ast_table ''t'')) ArgNone [ast_table ''t'']"

text \<open>\<open>SELECT 1\<close>\<close>

definition tree_select_1 :: ast where
  "tree_select_1 =
     Ast (exp_Other ''Select'') [] [] [] ''SELECT 1'' ArgNone ArgNone [ast_number ''1'']"

text \<open>\<open>EXPLAIN ANALYZE DELETE FROM t\<close>: a command whose operand is the rest of the text.\<close>

definition tree_explain_analyze_delete :: ast where
  "tree_explain_analyze_delete =
     Ast exp_Command ''EXPLAIN'' [] [] ''EXPLAIN ANALYZE DELETE FROM t'' (ArgStr ''EXPLAIN'')
       (ArgExp (ast_string ''ANALYZE DELETE FROM t'')) [ast_string ''ANALYZE DELETE FROM t'']"

text \<open>
  \<open>EXPLAIN\<close> followed by an operand, \<open>EXPLAIN\<close> alone, which has no operand, and
  \<open>ALTER TABLE t ADD COLUMN x INT\<close>.
\<close>

definition tree_explain_operand :: "string \<Rightarrow> ast" where
  "tree_explain_operand operand =
     Ast exp_Command ''EXPLAIN'' [] [] (''EXPLAIN '' @ operand) (ArgStr ''EXPLAIN'')
       (ArgExp (ast_string operand)) [ast_string operand]"

definition tree_explain_alone :: ast where
  "tree_explain_alone =
     Ast exp_Command ''EXPLAIN'' [] [] ''EXPLAIN'' (ArgStr ''EXPLAIN'') ArgNone []"

definition tree_alter :: ast where
  "tree_alter =
     Ast exp_Command ''ALTER'' [] [] ''ALTER TABLE t ADD COLUMN x INT'' (ArgStr ''ALTER'')
       (ArgExp (ast_string ''TABLE t ADD COLUMN x INT'')) [ast_string ''TABLE t ADD COLUMN x INT'']"

text \<open>The text \<open>EXPLAIN ANALYZE\<close>, a line feed, \<open>DELETE FROM t\<close>, and its operand.\<close>

definition analyze_newline_delete :: string where
  "analyze_newline_delete = ''ANALYZE'' @ [CHR 0x0A] @ ''DELETE FROM t''"

definition explain_analyze_newline_delete :: string where
  "explain_analyze_newline_delete = ''EXPLAIN '' @ analyze_newline_delete"

text \<open>\<open>SET foo = 'v'\<close>\<close>

definition ast_eq_foo :: "string \<Rightarrow> ast" where
  "ast_eq_foo v =
     Ast exp_EQ [] [] [] (''foo = '' @ ast_sql (ast_string v))
       (ArgExp (ast_column ''foo'')) (ArgExp (ast_string v)) [ast_column ''foo'', ast_string v]"

definition ast_set_item_foo :: "string \<Rightarrow> ast" where
  "ast_set_item_foo v =
     Ast exp_SetItem [] [] [] (''foo = '' @ ast_sql (ast_string v))
       (ArgExp (ast_eq_foo v)) ArgNone [ast_eq_foo v]"

definition tree_set_foo :: "string \<Rightarrow> ast" where
  "tree_set_foo v =
     Ast (exp_Other ''Set'') [] [] [] (''SET foo = '' @ ast_sql (ast_string v)) ArgNone ArgNone
       [ast_set_item_foo v]"

text \<open>\<open>SET a = '1', b = '2', a = '3'\<close>: three assignments in one statement.\<close>

definition ast_eq :: "string \<Rightarrow> string \<Rightarrow> ast" where
  "ast_eq k v =
     Ast exp_EQ [] [] [] (k @ '' = '' @ ast_sql (ast_string v))
       (ArgExp (ast_column k)) (ArgExp (ast_string v)) [ast_column k, ast_string v]"

definition ast_set_item :: "string \<Rightarrow> string \<Rightarrow> ast" where
  "ast_set_item k v =
     Ast exp_SetItem [] [] [] (k @ '' = '' @ ast_sql (ast_string v))
       (ArgExp (ast_eq k v)) ArgNone [ast_eq k v]"

definition set_three_text :: string where
  "set_three_text =
     ''SET a = '' @ [single_quote] @ ''1'' @ [single_quote] @ '', b = '' @ [single_quote] @ ''2''
     @ [single_quote] @ '', a = '' @ [single_quote] @ ''3'' @ [single_quote]"

definition tree_set_three :: ast where
  "tree_set_three =
     Ast (exp_Other ''Set'') [] [] [] set_three_text ArgNone ArgNone
       [ast_set_item ''a'' ''1'', ast_set_item ''b'' ''2'', ast_set_item ''a'' ''3'']"


text \<open>\<open>WITH foo AS (SELECT * FROM target_table) SELECT * FROM foo\<close> and its scopes.\<close>

definition cte_query :: string where
  "cte_query = ''WITH foo AS (SELECT * FROM target_table) SELECT * FROM foo''"

definition tree_cte_query :: ast where
  "tree_cte_query =
     Ast (exp_Other ''Select'') [] [] [] cte_query ArgNone ArgNone
       [ast_star, ast_table ''foo'',
        Ast (exp_Other ''With'') [] [] [] ''WITH foo AS (SELECT * FROM target_table)'' ArgNone ArgNone
          [Ast (exp_Other ''CTE'') [] [] [] ''foo AS (SELECT * FROM target_table)'' ArgNone ArgNone
             [Ast (exp_Other ''Select'') [] [] [] ''SELECT * FROM target_table'' ArgNone ArgNone
                [ast_star, ast_table ''target_table'']]]]"

text \<open>
  The scopes of a query \<open>WITH foo AS (SELECT * FROM target) SELECT * FROM foo\<close>, inner
  scope first: the scope of the CTE, which reads the table and whose parent is the root,
  and the root scope, where \<open>foo\<close> is bound to the scope of the CTE.
\<close>

definition cte_query_scopes :: "'e \<Rightarrow> 'e Scope list" where
  "cte_query_scopes target =
     (let cte_scope = Scope None CTE [(''target_table'', SourceExp target)];
          root = Scope None ROOT [(''foo'', SourceScope cte_scope)]
      in [Scope (Some root) CTE [(''target_table'', SourceExp target)], root])"

definition stub_traverse_scope :: "ast \<Rightarrow> sqlglot_error + ast Scope list" where
  "stub_traverse_scope tree =
     (if tree = tree_cte_query then Inr (cte_query_scopes (ast_table ''target_table''))
      else Inr [Scope None ROOT
                  [(ast_name node, SourceExp node). node \<leftarrow> ast_walk tree, ast_type node = exp_Table]])"

text \<open>The texts \<open>SET foo = 'v'\<close> and \<open>SET foo='bar'; SET foo='baz'\<close>.\<close>

definition set_foo_text :: "string \<Rightarrow> string" where
  "set_foo_text v = ''SET foo = '' @ [single_quote] @ v @ [single_quote]"

definition set_foo_script :: string where
  "set_foo_script =
     ''SET foo='' @ [single_quote] @ ''bar'' @ [single_quote] @ ''; SET foo=''
     @ [single_quote] @ ''baz'' @ [single_quote]"

definition stub_parse :: "string \<Rightarrow> Dialects option \<Rightarrow> sqlglot_error + ast option list" where
  "stub_parse text dialect =
     (if text = [] then Inr [None]
      else if text = ''DELETE FROM t'' then Inr [Some tree_delete]
      else if text = ''INSERT INTO t VALUES (1)''
        then Inr [Some (tree_on_t exp_Insert ''INSERT INTO t VALUES (1)'')]
      else if text = ''UPDATE t SET x=1'' then Inr [Some (tree_on_t exp_Update ''UPDATE t SET x=1'')]
      else if text = ''CREATE TABLE t (x INT)''
        then Inr [Some (tree_on_t exp_Create ''CREATE TABLE t (x INT)'')]
      else if text = ''DROP TABLE t'' then Inr [Some (tree_on_t exp_Drop ''DROP TABLE t'')]
      else if text = ''SELECT 1'' then Inr [Some tree_select_1]
      else if text = ''SELECT 1; DELETE FROM t'' then Inr [Some tree_select_1, Some tree_delete]
      else if text = ''SELECT 1;;'' then Inr [Some tree_select_1, None]
      else if text = ''EXPLAIN ANALYZE DELETE FROM t'' then Inr [Some tree_explain_analyze_delete]
      else if text = ''EXPLAIN analyze DELETE FROM t''
        then Inr [Some (tree_explain_operand ''analyze DELETE FROM t'')]
      else if text = explain_analyze_newline_delete
        then Inr [Some (tree_explain_operand analyze_newline_delete)]
      else if text = ''EXPLAIN SELECT 1'' then Inr [Some (tree_explain_operand ''SELECT 1'')]
      else if text = ''EXPLAIN'' then Inr [Some tree_explain_alone]
      else if text = ''ALTER TABLE t ADD COLUMN x INT'' then Inr [Some tree_alter]
      else if text = ''MERGE INTO t USING u ON t.x = u.x WHEN MATCHED THEN DELETE''
        then Inr [Some (tree_on_t exp_Merge
                    ''MERGE INTO t USING u ON t.x = u.x WHEN MATCHED THEN DELETE'')]
      else if text = ''TRUNCATE TABLE t''
        then Inr [Some (tree_on_t exp_TruncateTable ''TRUNCATE TABLE t'')]
      else if text = set_three_text then Inr [Some tree_set_three]
      else if text = set_foo_text ''bar'' then Inr [Some (tree_set_foo ''bar'')]
      else if text = set_foo_script
        then Inr [Some (tree_set_foo ''bar''), Some (tree_set_foo ''baz'')]
      else if text = cte_query then Inr [Some tree_cte_query]
      else Inl ParseError)"

definition stub_parse_one :: "string \<Rightarrow> Dialects option \<Rightarrow> sqlglot_error + ast" where
  "stub_parse_one text dialect =
     (case stub_parse text dialect of
        Inr (Some tree # rest) \<Rightarrow> Inr tree
      | _ \<Rightarrow> Inl ParseError)"

definition stub :: "ast sqlglot" where
  "stub =
     \<lparr>parse = stub_parse, parse_one = stub_parse_one, traverse_scope = stub_traverse_scope,
      walk = ast_walk, exp_type = ast_type, exp_this = ast_this,
      exp_expression = ast_expression, exp_name = ast_name, exp_db = ast_db,
      exp_catalog = ast_catalog, exp_sql = ast_sql\<rparr>"


section \<open>The splitter's loop\<close>

lemma kql_run_0: "kql_run q 0 = kql_init"
  by (simp add: kql_run_def)

lemma kql_run_Suc: "k < length q \<Longrightarrow> kql_run q (Suc k) = kql_body q (k, q ! k) (kql_run q k)"
  by (simp add: kql_run_def take_Suc_conv_app_nth nth_enumerate_eq)

lemma split_kql_run:
  "split_kql kql = snd (snd (kql_run (kql_query kql) (length (kql_query kql))))"
  by (simp add: split_kql_def kql_run_def Let_def)

lemma py_slice_lookbehind:
  "i \<le> length q \<Longrightarrow>
   py_slice q (int i - 2) (int i) = [a, b] \<longleftrightarrow> 2 \<le> i \<and> q ! (i - 2) = a \<and> q ! (i - 1) = b"
proof (cases "2 \<le> i")
  case True
  assume le: "i \<le> length q"
  have lo: "py_norm_index (length q) (int i - 2) = i - 2"
    using le True by (simp add: py_norm_index_def)
  have hi: "py_norm_index (length q) (int i) = i"
    using le by (simp add: py_norm_index_def)
  have d: "i - (i - 2) = 2" using True by simp
  have n: "Suc (i - 2) = i - 1" "i - 2 < length q" "i - 1 < length q"
    using True le by simp_all
  have "take 2 (drop (i - 2) q) = [q ! (i - 2), q ! (i - 1)]"
    using n by (simp add: numeral_2_eq_2 take_Suc_conv_app_nth)
  then have "py_slice q (int i - 2) (int i) = [q ! (i - 2), q ! (i - 1)]"
    by (simp only: py_slice_def Let_def lo hi d)
  then show ?thesis using True by simp
next
  case False
  assume le: "i \<le> length q"
  from False have "i = 0 \<or> i = 1" by arith
  then have "length (py_slice q (int i - 2) (int i)) < 2"
    using le by (auto simp: py_slice_def py_norm_index_def Let_def)
  then show ?thesis using False by auto
qed

lemma py_getitem_lookbehind:
  "0 < i \<Longrightarrow> i \<le> length q \<Longrightarrow> py_getitem q (int i - 1) = Some (q ! (i - 1))"
  by (auto simp: py_getitem_def Let_def nat_diff_distrib)

text \<open>
  Inside the loop the query is not empty and \<open>i\<close> is one of its positions, so the
  look-behind \<open>query[i - 1]\<close> never raises IndexError (at \<open>i = 0\<close> it reads the last
  character).
\<close>

lemma py_getitem_in_loop: "i < length q \<Longrightarrow> py_getitem q (int i - 1) \<noteq> None"
  by (auto simp: py_getitem_def Let_def)

lemma py_slice_segment:
  "a \<le> b \<Longrightarrow> b \<le> length q \<Longrightarrow> py_slice q (int a) (int b) = take (b - a) (drop a q)"
  by (simp add: py_slice_def py_norm_index_def Let_def)

lemma length_kql_body:
  "length (snd (snd (kql_body q (i, c) s))) =
     length (snd (snd s)) + (if c = semicolon \<and> fst s = OUTSIDE_STRING then 1 else 0)"
  by (cases s) (simp add: kql_body_def)

lemma length_kql_run:
  "k \<le> length q \<Longrightarrow>
   length (snd (snd (kql_run q k))) =
     length (filter (\<lambda>i. q ! i = semicolon \<and> kql_state_before q i = OUTSIDE_STRING) [0..<k])"
proof (induction k)
  case 0
  show ?case by (simp add: kql_run_0 kql_init_def)
next
  case (Suc k)
  then show ?case
    by (simp add: kql_run_Suc length_kql_body kql_state_before_def)
qed


lemma kql_state_before_0: "kql_state_before q 0 = OUTSIDE_STRING"
  by (simp add: kql_state_before_def kql_run_0 kql_init_def)

lemma kql_body_fst_append:
  assumes "i < length q" and "i = 0 \<longrightarrow> st = OUTSIDE_STRING"
  shows "fst (kql_body (q @ r) (i, c) (st, a, b)) = fst (kql_body q (i, c) (st, a', b'))"
proof -
  have "i - 2 < length q" "i - 1 < length q" using assms(1) by arith+
  then have n: "(q @ r) ! (i - 2) = q ! (i - 2)" "(q @ r) ! (i - 1) = q ! (i - 1)"
    by (simp_all only: nth_append if_True)
  have le: "i \<le> length (q @ r)" "i \<le> length q" using assms(1) by simp_all
  then have s1: "py_slice (q @ r) (int i - 2) (int i) = [backtick, backtick]
            \<longleftrightarrow> py_slice q (int i - 2) (int i) = [backtick, backtick]"
    by (simp only: py_slice_lookbehind n)
  show ?thesis
  proof (cases "i = 0")
    case True
    with assms(2) have "st = OUTSIDE_STRING" by simp
    then show ?thesis by (simp add: kql_body_def s1)
  next
    case False
    then have "0 < i" by simp
    then have "py_getitem (q @ r) (int i - 1) = py_getitem q (int i - 1)"
      using le by (simp only: py_getitem_lookbehind n)
    then show ?thesis by (simp add: kql_body_def s1)
  qed
qed

lemma kql_state_before_append:
  "k \<le> length q \<Longrightarrow> kql_state_before (q @ r) k = kql_state_before q k"
proof (induction k)
  case 0
  show ?case by (simp add: kql_state_before_0)
next
  case (Suc k)
  then have k: "k < length q" and ih: "kql_state_before (q @ r) k = kql_state_before q k"
    by simp_all
  obtain st a b where r1: "kql_run (q @ r) k = (st, a, b)" by (cases "kql_run (q @ r) k")
  obtain st' a' b' where r2: "kql_run q k = (st', a', b')" by (cases "kql_run q k")
  from ih r1 r2 have st: "st' = st" by (simp add: kql_state_before_def)
  have z: "k = 0 \<longrightarrow> st = OUTSIDE_STRING"
    using r1 by (auto simp: kql_run_0 kql_init_def)
  show ?case
    using k kql_body_fst_append[OF k z, of r "q ! k" a b a' b']
    by (simp add: kql_state_before_def kql_run_Suc r1 r2 st nth_append)
qed

lemma kql_body_semicolon_state: "fst (kql_body q (i, semicolon) s) = fst s"
  by (cases s) (simp add: kql_body_def semicolon_def single_quote_def double_quote_def backtick_def)

lemma endswith_semicolon: "endswith kql [semicolon] \<longleftrightarrow> kql \<noteq> [] \<and> last kql = semicolon"
proof (cases kql rule: rev_cases)
  case Nil
  then show ?thesis by (simp add: endswith_def)
next
  case (snoc ys y)
  then show ?thesis by (simp add: endswith_def)
qed

lemma length_split_kql:
  "length (split_kql kql) =
     kql_appends kql
     + (if \<not> endswith kql [semicolon] \<and> kql_final_state kql = OUTSIDE_STRING then 1 else 0)"
proof (cases "endswith kql [semicolon]")
  case True
  then show ?thesis
    by (simp add: split_kql_run kql_query_def length_kql_run kql_appends_def)
next
  case False
  let ?q = "kql @ [semicolon]"
  have "length (split_kql kql) =
        length (filter (\<lambda>i. ?q ! i = semicolon \<and> kql_state_before ?q i = OUTSIDE_STRING)
                  [0..<Suc (length kql)])"
    using False by (simp add: split_kql_run kql_query_def length_kql_run)
  also have "\<dots> = length (filter (\<lambda>i. ?q ! i = semicolon \<and> kql_state_before ?q i = OUTSIDE_STRING)
                  [0..<length kql])
                + (if kql_state_before ?q (length kql) = OUTSIDE_STRING then 1 else 0)"
    by simp
  also have "filter (\<lambda>i. ?q ! i = semicolon \<and> kql_state_before ?q i = OUTSIDE_STRING) [0..<length kql]
           = filter (\<lambda>i. kql ! i = semicolon \<and> kql_state_before kql i = OUTSIDE_STRING) [0..<length kql]"
    by (rule filter_cong) (simp_all add: nth_append kql_state_before_append)
  finally show ?thesis
    using False by (simp add: kql_appends_def kql_final_state_def kql_state_before_append)
qed

lemma split_kql_nonempty:
  assumes "kql_final_state kql = OUTSIDE_STRING"
  shows "split_kql kql \<noteq> []"
proof (cases "endswith kql [semicolon]")
  case False
  with assms have "length (split_kql kql) = kql_appends kql + 1"
    by (simp add: length_split_kql)
  then show ?thesis by auto
next
  case True
  then obtain ys where kql: "kql = ys @ [semicolon]"
    by (cases kql rule: rev_cases) (auto simp: endswith_semicolon)
  let ?k = "length ys"
  have k: "?k < length kql" by (simp add: kql)
  have "kql_state_before kql (Suc ?k) = kql_state_before kql ?k"
    using k by (simp add: kql_state_before_def kql_run_Suc kql kql_body_semicolon_state)
  with assms have "kql_state_before kql ?k = OUTSIDE_STRING"
    by (simp add: kql_final_state_def kql)
  then have "?k \<in> set (filter (\<lambda>i. kql ! i = semicolon \<and> kql_state_before kql i = OUTSIDE_STRING)
                 [0..<length kql])"
    using k by (simp add: kql)
  then have "0 < kql_appends kql"
    unfolding kql_appends_def by (metis length_pos_if_in_set)
  moreover have "length (split_kql kql) = kql_appends kql"
    using True by (simp add: length_split_kql)
  ultimately show ?thesis by auto
qed

lemma kql_body_plain:
  "c \<notin> {semicolon, single_quote, double_quote, backtick} \<Longrightarrow>
   kql_body q (i, c) (OUTSIDE_STRING, a, b) = (OUTSIDE_STRING, a, b)"
  by (simp add: kql_body_def)

lemma kql_run_plain:
  "k \<le> length q \<Longrightarrow>
   \<forall>i<k. q ! i \<notin> {semicolon, single_quote, double_quote, backtick} \<Longrightarrow>
   kql_run q k = kql_init"
proof (induction k)
  case 0
  show ?case by (simp add: kql_run_0)
next
  case (Suc k)
  then have "kql_run q k = kql_init" by simp
  then show ?case using Suc.prems
    by (simp add: kql_run_Suc kql_init_def kql_body_plain del: insert_iff)
qed

lemma split_kql_plain:
  assumes "\<forall>c\<in>set kql. c \<notin> {semicolon, single_quote, double_quote, backtick}"
  shows "split_kql kql = [kql]"
proof -
  have ne: "\<not> endswith kql [semicolon]"
    using assms by (auto simp: endswith_semicolon)
  let ?q = "kql @ [semicolon]"
  have "\<forall>i<length kql. ?q ! i \<notin> {semicolon, single_quote, double_quote, backtick}"
    using assms by (simp add: nth_append del: insert_iff)
  then have "kql_run ?q (length kql) = kql_init"
    by (intro kql_run_plain) simp_all
  then have "kql_run ?q (Suc (length kql)) = (OUTSIDE_STRING, length kql + 1, [kql])"
    by (simp add: kql_run_Suc kql_init_def kql_body_def py_slice_def py_norm_index_def)
  then show ?thesis using ne by (simp add: split_kql_run kql_query_def)
qed


text \<open>
  A segment scanned on its own: the scanner behaves on the text after a top-level
  separator as on a text of its own, so every segment splits into itself.
\<close>

lemma kql_body_append:
  assumes "i < length q" and "i = 0 \<longrightarrow> st = OUTSIDE_STRING" and "a \<le> i"
  shows "kql_body (q @ r) (i, c) (st, a, b) = kql_body q (i, c) (st, a, b)"
proof -
  have "i - 2 < length q" "i - 1 < length q" using assms(1) by arith+
  then have n: "(q @ r) ! (i - 2) = q ! (i - 2)" "(q @ r) ! (i - 1) = q ! (i - 1)"
    by (simp_all only: nth_append if_True)
  have le: "i \<le> length (q @ r)" "i \<le> length q" using assms(1) by simp_all
  then have s1: "py_slice (q @ r) (int i - 2) (int i) = [backtick, backtick]
            \<longleftrightarrow> py_slice q (int i - 2) (int i) = [backtick, backtick]"
    by (simp only: py_slice_lookbehind n)
  have s2: "py_slice (q @ r) (int a) (int i) = py_slice q (int a) (int i)"
    using assms(3) le by (simp add: py_slice_segment)
  show ?thesis
  proof (cases "i = 0")
    case True
    with assms(2) have "st = OUTSIDE_STRING" by simp
    then show ?thesis by (simp add: kql_body_def s1 s2)
  next
    case False
    then have "0 < i" by simp
    then have "py_getitem (q @ r) (int i - 1) = py_getitem q (int i - 1)"
      using le by (simp only: py_getitem_lookbehind n)
    then show ?thesis by (simp add: kql_body_def s1 s2)
  qed
qed

lemma kql_body_start:
  "fst (snd (kql_body q (i, c) (st, a, b))) = a \<or> fst (snd (kql_body q (i, c) (st, a, b))) = i + 1"
  by (simp add: kql_body_def)

lemma kql_run_start_le: "k \<le> length q \<Longrightarrow> fst (snd (kql_run q k)) \<le> k"
proof (induction k)
  case 0
  show ?case by (simp add: kql_run_0 kql_init_def)
next
  case (Suc k)
  obtain st a b where r: "kql_run q k = (st, a, b)" by (cases "kql_run q k")
  with Suc have "a \<le> k" by simp
  then show ?case
    using Suc.prems kql_body_start[of q k "q ! k" st a b] by (auto simp: kql_run_Suc r)
qed

lemma kql_run_append: "k \<le> length q \<Longrightarrow> kql_run (q @ r) k = kql_run q k"
proof (induction k)
  case 0
  show ?case by (simp add: kql_run_0)
next
  case (Suc k)
  then have k: "k < length q" and ih: "kql_run (q @ r) k = kql_run q k" by simp_all
  obtain st a b where r: "kql_run q k = (st, a, b)" by (cases "kql_run q k")
  have z: "k = 0 \<longrightarrow> st = OUTSIDE_STRING"
    using r by (auto simp: kql_run_0 kql_init_def)
  have a: "a \<le> k" using kql_run_start_le[of k q] k r by simp
  show ?case
    using k kql_body_append[OF k z a, of r "q ! k" b]
    by (simp add: kql_run_Suc ih r nth_append)
qed

lemma kql_body_keeps:
  "\<not> (st = OUTSIDE_STRING \<and> c = semicolon) \<Longrightarrow>
   kql_body q (i, c) (st, a, b) = (fst (kql_body q (i, c) (st, a, b)), a, b)"
  by (simp add: kql_body_def)

lemma kql_body_split:
  "kql_body q (i, semicolon) (OUTSIDE_STRING, a, b) =
     (OUTSIDE_STRING, i + 1, b @ [py_slice q (int a) (int i)])"
  by (simp add: kql_body_def)

lemma kql_body_drop:
  assumes k: "k < length q" and sk: "start \<le> k"
    and sep: "start = 0 \<or> q ! (start - 1) = semicolon"
    and z: "k = start \<longrightarrow> st = OUTSIDE_STRING"
  shows "fst (kql_body q (k, c) (st, a, b))
         = fst (kql_body (drop start q) (k - start, c) (st, a', b'))"
proof -
  let ?d = "drop start q" and ?j = "k - start"
  have bs: "backtick \<noteq> semicolon" by (simp add: backtick_def semicolon_def)
  have le: "k \<le> length q" "?j \<le> length ?d" using k sk by simp_all
  have t: "(2 \<le> k \<and> q ! (k - 2) = backtick \<and> q ! (k - 1) = backtick)
           \<longleftrightarrow> (2 \<le> ?j \<and> ?d ! (?j - 2) = backtick \<and> ?d ! (?j - 1) = backtick)"
  proof (cases "2 \<le> ?j")
    case True
    then have "start + (?j - 2) = k - 2" "start + (?j - 1) = k - 1" "2 \<le> k"
      using sk by arith+
    then show ?thesis using True k by simp
  next
    case False
    then have "?j = 0 \<or> ?j = 1" by arith
    then have "start = 0 \<and> k < 2 \<or> (0 < start \<and> (k - 1 = start - 1 \<or> k - 2 = start - 1))"
      using sk by arith
    then show ?thesis using False sep bs by auto
  qed
  have s1: "py_slice q (int k - 2) (int k) = [backtick, backtick]
            \<longleftrightarrow> py_slice ?d (int ?j - 2) (int ?j) = [backtick, backtick]"
    by (simp only: py_slice_lookbehind[OF le(1)] py_slice_lookbehind[OF le(2)] t)
  show ?thesis
  proof (cases "k = start")
    case True
    with z have "st = OUTSIDE_STRING" by simp
    then show ?thesis by (simp add: kql_body_def s1)
  next
    case False
    then have p: "0 < k" "0 < ?j" "start + (?j - 1) = k - 1" using sk by arith+
    have "start \<le> length q" using k sk by simp
    then have "?d ! (?j - 1) = q ! (start + (?j - 1))" by (rule nth_drop)
    then have "?d ! (?j - 1) = q ! (k - 1)" by (simp only: p(3))
    then have "py_getitem q (int k - 1) = py_getitem ?d (int ?j - 1)"
      by (simp only: py_getitem_lookbehind[OF p(1) le(1)]
          py_getitem_lookbehind[OF p(2) le(2)])
    then show ?thesis by (simp add: kql_body_def s1)
  qed
qed


lemma kql_run_semicolon_last:
  assumes "j < length q" and "q ! j = semicolon"
  shows "kql_run q (Suc j) \<noteq> (OUTSIDE_STRING, 0, [])"
proof -
  obtain st a b where r: "kql_run q j = (st, a, b)" by (cases "kql_run q j")
  show ?thesis
  proof (cases "st = OUTSIDE_STRING")
    case True
    then show ?thesis using assms by (simp add: kql_run_Suc r kql_body_split)
  next
    case False
    have "fst (kql_run q (Suc j)) = st"
      using assms by (simp add: kql_run_Suc r kql_body_semicolon_state)
    with False show ?thesis by auto
  qed
qed

lemma resplit_segment:
  assumes "kql_run (seg @ semicolon # rest) (length seg) = (OUTSIDE_STRING, 0, [])"
  shows "split_kql seg = [seg]"
proof -
  let ?q = "seg @ [semicolon]"
  have "kql_run (?q @ rest) (length seg) = kql_run ?q (length seg)"
    by (rule kql_run_append) simp
  with assms have run: "kql_run ?q (length seg) = (OUTSIDE_STRING, 0, [])" by simp
  have ne: "\<not> endswith seg [semicolon]"
  proof
    assume "endswith seg [semicolon]"
    then obtain ys where seg: "seg = ys @ [semicolon]"
      by (cases seg rule: rev_cases) (auto simp: endswith_semicolon)
    have "kql_run ?q (Suc (length ys)) \<noteq> (OUTSIDE_STRING, 0, [])"
      by (rule kql_run_semicolon_last) (simp_all add: seg nth_append)
    with run show False by (simp add: seg)
  qed
  have "kql_run ?q (Suc (length seg)) = (OUTSIDE_STRING, length seg + 1, [seg])"
    by (simp add: kql_run_Suc run kql_body_split py_slice_def py_norm_index_def)
  then show ?thesis using ne by (simp add: split_kql_run kql_query_def)
qed

lemma kql_run_segments:
  "k \<le> length q \<Longrightarrow> kql_run q k = (st, start, stmts) \<Longrightarrow>
   start \<le> k \<and> (start = 0 \<or> q ! (start - 1) = semicolon)
   \<and> kql_run (drop start q) (k - start) = (st, 0, [])
   \<and> (\<forall>seg\<in>set stmts. split_kql seg = [seg])"
proof (induction k arbitrary: st start stmts)
  case 0
  then show ?case by (simp add: kql_run_0 kql_init_def)
next
  case (Suc k)
  then have k: "k < length q" by simp
  obtain st0 a b where r: "kql_run q k = (st0, a, b)" by (cases "kql_run q k")
  have ih: "a \<le> k" "a = 0 \<or> q ! (a - 1) = semicolon"
    "kql_run (drop a q) (k - a) = (st0, 0, [])" "\<forall>seg\<in>set b. split_kql seg = [seg]"
    using Suc.IH[OF _ r] k by simp_all
  have step: "kql_body q (k, q ! k) (st0, a, b) = (st, start, stmts)"
    using Suc.prems(2) k by (simp add: kql_run_Suc r)
  show ?case
  proof (cases "st0 = OUTSIDE_STRING \<and> q ! k = semicolon")
    case True
    let ?seg = "take (k - a) (drop a q)"
    from True step have res: "st = OUTSIDE_STRING" "start = k + 1"
      "stmts = b @ [py_slice q (int a) (int k)]"
      by (simp_all add: kql_body_split)
    have seg: "py_slice q (int a) (int k) = ?seg"
      using ih(1) k by (simp add: py_slice_segment)
    have "drop (k - a) (drop a q) = drop k q" using ih(1) by simp
    also have "\<dots> = semicolon # drop (Suc k) q"
      using k True Cons_nth_drop_Suc[of k q] by simp
    finally have "drop a q = ?seg @ semicolon # drop (Suc k) q"
      by (metis append_take_drop_id)
    moreover have "length ?seg = k - a" using k ih(1) by simp
    ultimately have "kql_run (?seg @ semicolon # drop (Suc k) q) (length ?seg)
                     = (OUTSIDE_STRING, 0, [])"
      using ih(3) True by simp
    then have "split_kql ?seg = [?seg]" by (rule resplit_segment)
    then show ?thesis
      using ih(4) True by (simp add: res seg kql_run_0 kql_init_def)
  next
    case False
    have z: "k = a \<longrightarrow> st0 = OUTSIDE_STRING"
      using ih(3) by (auto simp: kql_run_0 kql_init_def)
    from False have keep: "kql_body q (k, q ! k) (st0, a, b)
        = (fst (kql_body q (k, q ! k) (st0, a, b)), a, b)"
      by (rule kql_body_keeps)
    with step have res: "start = a" "stmts = b" "st = fst (kql_body q (k, q ! k) (st0, a, b))"
      by simp_all
    have st: "st = fst (kql_body (drop a q) (k - a, q ! k) (st0, 0, []))"
      unfolding res(3) by (rule kql_body_drop[OF k ih(1) ih(2) z])
    have j: "k - a < length (drop a q)" "drop a q ! (k - a) = q ! k" "Suc k - a = Suc (k - a)"
      using k ih(1) by simp_all
    have "kql_run (drop a q) (Suc (k - a)) = kql_body (drop a q) (k - a, q ! k) (st0, 0, [])"
      using j(1) by (simp add: kql_run_Suc ih(3) j(2))
    also have "\<dots> = (st, 0, [])"
      using kql_body_keeps[OF False, of "drop a q" "k - a" 0 "[]"] st by simp
    finally show ?thesis using ih by (simp add: res(1,2) j(3))
  qed
qed

lemma split_kql_resplit: "seg \<in> set (split_kql kql) \<Longrightarrow> split_kql seg = [seg]"
proof -
  assume m: "seg \<in> set (split_kql kql)"
  let ?q = "kql_query kql"
  obtain st start stmts where r: "kql_run ?q (length ?q) = (st, start, stmts)"
    by (cases "kql_run ?q (length ?q)")
  have "\<forall>seg\<in>set stmts. split_kql seg = [seg]"
    using kql_run_segments[OF _ r] by simp
  moreover have "split_kql kql = stmts" by (simp add: split_kql_run r)
  ultimately show ?thesis using m by simp
qed

section \<open>The loop follows the literals of the specification\<close>









section \<open>Statements built from segments and parse units\<close>

lemma isspace_plain:
  "isspace c \<Longrightarrow> c \<notin> {semicolon, single_quote, double_quote, backtick}"
  by (auto simp: isspace_def semicolon_def single_quote_def double_quote_def backtick_def)

lemma strip_spaces: "\<forall>c\<in>set s. isspace c \<Longrightarrow> strip s = []"
proof -
  assume "\<forall>c\<in>set s. isspace c"
  then have d: "dropWhile isspace s = []" by simp
  show ?thesis by (simp only: strip_def d rev.simps dropWhile.simps)
qed

lemma map_somes:
  "map f [tree. Some tree \<leftarrow> units] = [f tree. Some tree \<leftarrow> units]"
  by (induction units) (auto split: option.splits)

lemma KustoKQLStatement_init_single:
  "split_kql text = [seg] \<Longrightarrow>
   KustoKQLStatement_init text ''kustokql'' lg =
     (Inr \<lparr>self_parsed = strip seg, self_engine = ''kustokql'', self_tables = {}\<rparr>,
      lg @ [table_extraction_warning])"
  by (simp add: KustoKQLStatement_init_def KustoKQLStatement_parse_statement_def
      KustoKQLStatement_extract_tables_from_statement_def)

lemma KustoKQLStatement_init_all_segments:
  "\<forall>seg\<in>set segs. split_kql seg = [seg] \<Longrightarrow>
   KustoKQLStatement_init_all segs ''kustokql'' lg =
     (Inr (map (\<lambda>seg. \<lparr>self_parsed = strip seg, self_engine = ''kustokql'', self_tables = {}\<rparr>)
             segs),
      lg @ replicate (length segs) table_extraction_warning)"
proof (induction segs arbitrary: lg)
  case Nil
  show ?case by simp
next
  case (Cons seg segs)
  then have "split_kql seg = [seg]" by simp
  then show ?case
    using Cons by (simp add: KustoKQLStatement_init_single replicate_app_Cons_same)
qed

lemma sequence_Inr: "sequence xs = Inr vs \<Longrightarrow> xs = map Inr vs"
  by (induction xs arbitrary: vs) (auto split: sum.splits)

lemma SQLStatement_init_parsed:
  "SQLStatement_init G (FromParsed tree) engine = Inr s \<Longrightarrow> self_parsed s = tree"
  by (auto simp: SQLStatement_init_def split: sum.splits)

lemma SQLStatement_split_query_parsed:
  assumes "parse G query (SQLGLOT_DIALECTS engine) = Inr units"
    and "SQLStatement_split_query G query engine = Inr sts"
  shows "map self_parsed sts = [tree. Some tree \<leftarrow> units]"
proof -
  let ?trees = "[tree. Some tree \<leftarrow> units]"
  have "sequence (map (\<lambda>tree. SQLStatement_init G (FromParsed tree) engine) ?trees) = Inr sts"
    using assms by (simp add: SQLStatement_split_query_def map_somes)
  then have m: "map (\<lambda>tree. SQLStatement_init G (FromParsed tree) engine) ?trees = map Inr sts"
    by (rule sequence_Inr)
  then have len: "length ?trees = length sts" by (metis length_map)
  show ?thesis
  proof (rule nth_equalityI)
    show "length (map self_parsed sts) = length ?trees" using len by simp
  next
    fix i assume "i < length (map self_parsed sts)"
    then have i: "i < length sts" "i < length ?trees" using len by simp_all
    have "map (\<lambda>tree. SQLStatement_init G (FromParsed tree) engine) ?trees ! i = map Inr sts ! i"
      using m by simp
    then have "SQLStatement_init G (FromParsed (?trees ! i)) engine = Inr (sts ! i)"
      using i by simp
    then have "self_parsed (sts ! i) = ?trees ! i" by (rule SQLStatement_init_parsed)
    then show "map self_parsed sts ! i = ?trees ! i" using i by simp
  qed
qed

section \<open>Evaluation of the examples\<close>

lemmas kql_eval =
  split_kql_def kql_query_def endswith_def kql_init_def kql_body_def py_slice_def
  py_norm_index_def py_getitem_def enumerate_eq_zip backtick_def semicolon_def
  single_quote_def double_quote_def backslash_def kql_state_before_def kql_run_def
  kql_final_state_def kql_appends_def

lemma stub_fields:
  "parse stub = stub_parse" "parse_one stub = stub_parse_one"
  "traverse_scope stub = stub_traverse_scope" "walk stub = ast_walk"
  "exp_type stub = ast_type" "exp_this stub = ast_this" "exp_expression stub = ast_expression"
  "exp_name stub = ast_name" "exp_db stub = ast_db" "exp_catalog stub = ast_catalog"
  "exp_sql stub = ast_sql"
  by (simp_all add: stub_def)

lemma dialects_eval:
  "SQLGLOT_DIALECTS ''sqlite'' = Some SQLITE"
  "SQLGLOT_DIALECTS ''postgresql'' = Some POSTGRES"
  "SQLGLOT_DIALECTS ''mysql'' = Some MYSQL"
  "SQLGLOT_DIALECTS ''kustokql'' = None"
  by (simp_all add: SQLGLOT_DIALECTS_def)

lemma init_select_1:
  "SQLStatement_init stub (FromParsed tree_select_1) e =
     Inr \<lparr>self_parsed = tree_select_1, self_engine = e, self_tables = {},
          self_dialect = SQLGLOT_DIALECTS e\<rparr>"
  by (simp add: SQLStatement_init_def SQLStatement_extract_tables_from_statement_def
      extract_tables_from_statement_def stub_fields stub_traverse_scope_def scope_sources_def
      tree_select_1_def tree_cte_query_def ast_number_def)

lemma somes_singleton:
  "length [t. Some t \<leftarrow> units] = 1 \<Longrightarrow> [t. Some t \<leftarrow> units] = [[t. Some t \<leftarrow> units] ! 0]"
  by (cases "[t. Some t \<leftarrow> units]") simp_all

lemma extract_select_1:
  "SQLStatement_extract_tables_from_statement stub tree_select_1 e = Inr {}"
  by (simp add: SQLStatement_extract_tables_from_statement_def
      extract_tables_from_statement_def stub_fields stub_traverse_scope_def scope_sources_def
      tree_select_1_def tree_cte_query_def ast_number_def)

lemma replace_dot_no_dot: "CHR ''.'' \<notin> set (replace_dot s)"
  by (auto simp: replace_dot_def split: if_splits)

section \<open>The guard of the recursion on \<open>EXPLAIN ANALYZE\<close>\<close>

lemma upper_char_lower:
  assumes "c \<in> set ''abcdefghijklmnopqrstuvwxyz''" and "u \<in> set ''ANALYZE''"
  shows "upper_char c = u \<longleftrightarrow> same_letter c u"
  using assms by (auto simp: upper_char_def same_letter_def char_of_eq_iff)

lemma upper_char_other:
  assumes "c \<notin> set ''abcdefghijklmnopqrstuvwxyz''" and "u \<in> set ''ANALYZE''"
  shows "upper_char c = u \<longleftrightarrow> same_letter c u"
proof -
  have "(of_char c :: nat) \<noteq> of_char u + 32"
  proof
    assume eq: "(of_char c :: nat) = of_char u + 32"
    have "char_of (of_char c :: nat) = c" by simp
    then have "c = char_of (of_char u + 32 :: nat)" using eq by simp
    then have "c \<in> set ''abcdefghijklmnopqrstuvwxyz''"
      using assms(2) by (auto simp: char_of_eq_iff)
    then show False using assms(1) by simp
  qed
  then show ?thesis using assms(1) by (simp add: upper_char_def same_letter_def)
qed

lemma upper_char_same_letter:
  "u \<in> set ''ANALYZE'' \<Longrightarrow> upper_char c = u \<longleftrightarrow> same_letter c u"
  using upper_char_lower upper_char_other by blast

lemma upper_char_space: "upper_char c = CHR '' '' \<longleftrightarrow> c = CHR '' ''"
  by (auto simp: upper_char_def char_of_eq_iff)

lemma analyze_guard:
  "startswith (upper s) ''ANALYZE ''
   \<longleftrightarrow> begins_with_analyze s \<and> 7 < length s \<and> s ! 7 = CHR '' ''"
proof (cases "8 \<le> length s")
  case False
  have "\<not> startswith (upper s) ''ANALYZE ''"
  proof
    assume "startswith (upper s) ''ANALYZE ''"
    then have "take (length ''ANALYZE '') (upper s) = ''ANALYZE ''"
      by (simp only: startswith_def)
    then have "length (take (length ''ANALYZE '') (upper s)) = length ''ANALYZE ''"
      by (rule arg_cong)
    then show False using False by (simp add: upper_def)
  qed
  then show ?thesis using False by simp
next
  case True
  define p where "p = take 8 s"
  define r where "r = drop 8 s"
  have s: "s = p @ r" by (simp add: p_def r_def)
  have "length p = Suc (Suc (Suc (Suc (Suc (Suc (Suc (Suc 0)))))))"
    using True by (simp add: p_def)
  then obtain a b c d e f g h where p: "p = [a, b, c, d, e, f, g, h]"
    by (auto simp: length_Suc_conv)
  show ?thesis
    unfolding s p
    by (simp add: startswith_def begins_with_analyze_def upper_def
        upper_char_same_letter upper_char_space)
qed

lemma length_analyze: "length ''ANALYZE '' = 8"
  by simp

section \<open>The grammar-backed statement\<close>

lemma ctes_in_scope_iff:
  "name \<in> set [name. (name, SourceScope parent_scope) \<leftarrow> parent_sources,
                     scope_type parent_scope = CTE]
   \<longleftrightarrow> (\<exists>parent_scope. (name, SourceScope parent_scope) \<in> set parent_sources
                        \<and> scope_type parent_scope = CTE)"
  by (induction parent_sources) (auto split: source.splits)

lemma is_cte_iff:
  "is_cte G source scope \<longleftrightarrow>
     (\<exists>p parent_scope. parent scope = Some p
        \<and> (exp_name G source, SourceScope parent_scope) \<in> set (sources p)
        \<and> scope_type parent_scope = CTE)"
  unfolding is_cte_def Let_def ctes_in_scope_iff by (cases "parent scope") simp_all

lemma scope_tables_iff:
  "source \<in> set [source. (name, SourceExp source) \<leftarrow> srcs, P source]
   \<longleftrightarrow> (\<exists>name. (name, SourceExp source) \<in> set srcs) \<and> P source"
  by (induction srcs) (auto split: source.splits)

lemma set_scope_sources:
  "set (scope_sources G scopes) =
     {source. \<exists>scope name. scope \<in> set scopes \<and> (name, SourceExp source) \<in> set (sources scope)
                \<and> exp_type G source = exp_Table \<and> \<not> is_cte G source scope}"
  unfolding scope_sources_def set_concat set_map by (auto simp: scope_tables_iff)


lemma is_mutating_node_found:
  "\<exists>node\<in>set (walk G (self_parsed s)). mutating_node G node \<Longrightarrow>
   SQLStatement_is_mutating fuel G s = Some (Inr True)"
  by (cases fuel) (simp_all add: is_mutating_body_def)

lemma is_mutating_no_explain:
  "\<not> (self_dialect s = Some POSTGRES \<and> exp_type G (self_parsed s) = exp_Command
       \<and> exp_name G (self_parsed s) = ''EXPLAIN'') \<Longrightarrow>
   SQLStatement_is_mutating fuel G s
     = Some (Inr (\<exists>node\<in>set (walk G (self_parsed s)). mutating_node G node))"
  by (cases fuel) (auto simp: is_mutating_body_def)

lemma is_mutating_no_analyze:
  "exp_expression G (self_parsed s) = ArgExp operand \<Longrightarrow>
   \<not> startswith (upper (exp_name G operand)) ''ANALYZE '' \<Longrightarrow>
   SQLStatement_is_mutating fuel G s
     = Some (Inr (\<exists>node\<in>set (walk G (self_parsed s)). mutating_node G node))"
  by (cases fuel) (auto simp: is_mutating_body_def)

lemma is_mutating_no_operand:
  "\<not> (\<exists>node\<in>set (walk G (self_parsed s)). mutating_node G node) \<Longrightarrow>
   self_dialect s = Some POSTGRES \<and> exp_type G (self_parsed s) = exp_Command
     \<and> exp_name G (self_parsed s) = ''EXPLAIN'' \<Longrightarrow>
   \<forall>operand. exp_expression G (self_parsed s) \<noteq> ArgExp operand \<Longrightarrow>
   SQLStatement_is_mutating fuel G s = Some (Inl AttributeError)"
  by (cases fuel; cases "exp_expression G (self_parsed s)") (simp_all add: is_mutating_body_def)

lemma is_mutating_analyze:
  "\<not> (\<exists>node\<in>set (walk G (self_parsed s)). mutating_node G node) \<Longrightarrow>
   self_dialect s = Some POSTGRES \<and> exp_type G (self_parsed s) = exp_Command
     \<and> exp_name G (self_parsed s) = ''EXPLAIN'' \<Longrightarrow>
   exp_expression G (self_parsed s) = ArgExp operand \<Longrightarrow>
   startswith (upper (exp_name G operand)) ''ANALYZE '' \<Longrightarrow>
   SQLStatement_is_mutating (Suc fuel) G s =
     (case SQLStatement_init G (FromText (drop 8 (exp_name G operand))) (self_engine s) of
        Inl ex \<Rightarrow> Some (Inl ex)
      | Inr inner \<Rightarrow> SQLStatement_is_mutating fuel G inner)"
  unfolding length_analyze[symmetric] by (simp add: is_mutating_body_def)









lemmas stub_trees =
  tree_delete_def tree_on_t_def tree_select_1_def tree_explain_analyze_delete_def tree_set_foo_def
  ast_set_item_foo_def ast_eq_foo_def tree_explain_operand_def tree_explain_alone_def
  tree_alter_def tree_set_three_def ast_set_item_def ast_eq_def
  tree_cte_query_def cte_query_def ast_identifier_def ast_table_def ast_column_def
  ast_string_def ast_number_def ast_star_def

lemmas extract_eval =
  SQLStatement_extract_tables_from_statement_def extract_tables_from_statement_def
  stub_fields stub_traverse_scope_def scope_sources_def is_cte_def source_table_def
  find_def find_all_def format_arg_def stub_parse_one_def stub_parse_def
  set_foo_text_def set_foo_script_def single_quote_def set_three_text_def
  explain_analyze_newline_delete_def analyze_newline_delete_def
  cte_query_scopes_def Let_def

lemma extract_delete:
  "SQLStatement_extract_tables_from_statement stub tree_delete e =
     Inr {\<lparr>table = ''t'', schema = None, catalog = None\<rparr>}"
  by (simp add: extract_eval stub_trees)

lemma extract_on_t:
  "c \<noteq> exp_Describe \<Longrightarrow> c \<noteq> exp_Command \<Longrightarrow> c \<noteq> exp_Table \<Longrightarrow>
   SQLStatement_extract_tables_from_statement stub (tree_on_t c q) e =
     Inr {\<lparr>table = ''t'', schema = None, catalog = None\<rparr>}"
  by (simp add: extract_eval stub_trees)

lemma extract_explain:
  "SQLStatement_extract_tables_from_statement stub tree_explain_analyze_delete e = Inr {}"
  by (simp add: extract_eval stub_trees)

lemma extract_commands:
  "SQLStatement_extract_tables_from_statement stub tree_explain_alone e = Inr {}"
  "SQLStatement_extract_tables_from_statement stub tree_alter e = Inr {}"
  "SQLStatement_extract_tables_from_statement stub tree_set_three e = Inr {}"
  "SQLStatement_extract_tables_from_statement stub
     (tree_explain_operand ''analyze DELETE FROM t'') e = Inr {}"
  "SQLStatement_extract_tables_from_statement stub
     (tree_explain_operand analyze_newline_delete) e = Inr {}"
  "SQLStatement_extract_tables_from_statement stub (tree_explain_operand ''SELECT 1'') e = Inr {}"
  by (simp_all add: extract_eval stub_trees)

lemma extract_set_foo:
  "SQLStatement_extract_tables_from_statement stub (tree_set_foo v) e = Inr {}"
  by (simp add: extract_eval stub_trees)

lemma extract_cte_query:
  "SQLStatement_extract_tables_from_statement stub tree_cte_query e =
     Inr {\<lparr>table = ''target_table'', schema = None, catalog = None\<rparr>}"
  by (simp add: extract_eval stub_trees)

lemma parse_stub:
  "parse stub ''DELETE FROM t'' d = Inr [Some tree_delete]"
  "parse stub ''INSERT INTO t VALUES (1)'' d
     = Inr [Some (tree_on_t exp_Insert ''INSERT INTO t VALUES (1)'')]"
  "parse stub ''UPDATE t SET x=1'' d = Inr [Some (tree_on_t exp_Update ''UPDATE t SET x=1'')]"
  "parse stub ''CREATE TABLE t (x INT)'' d
     = Inr [Some (tree_on_t exp_Create ''CREATE TABLE t (x INT)'')]"
  "parse stub ''DROP TABLE t'' d = Inr [Some (tree_on_t exp_Drop ''DROP TABLE t'')]"
  "parse stub ''SELECT 1'' d = Inr [Some tree_select_1]"
  "parse stub ''EXPLAIN ANALYZE DELETE FROM t'' d = Inr [Some tree_explain_analyze_delete]"
  "parse stub ''EXPLAIN analyze DELETE FROM t'' d
     = Inr [Some (tree_explain_operand ''analyze DELETE FROM t'')]"
  "parse stub explain_analyze_newline_delete d
     = Inr [Some (tree_explain_operand analyze_newline_delete)]"
  "parse stub ''EXPLAIN SELECT 1'' d = Inr [Some (tree_explain_operand ''SELECT 1'')]"
  "parse stub ''EXPLAIN'' d = Inr [Some tree_explain_alone]"
  "parse stub ''ALTER TABLE t ADD COLUMN x INT'' d = Inr [Some tree_alter]"
  "parse stub ''MERGE INTO t USING u ON t.x = u.x WHEN MATCHED THEN DELETE'' d
     = Inr [Some (tree_on_t exp_Merge
              ''MERGE INTO t USING u ON t.x = u.x WHEN MATCHED THEN DELETE'')]"
  "parse stub ''TRUNCATE TABLE t'' d = Inr [Some (tree_on_t exp_TruncateTable ''TRUNCATE TABLE t'')]"
  "parse stub set_three_text d = Inr [Some tree_set_three]"
  "parse stub cte_query d = Inr [Some tree_cte_query]"
  "parse stub (set_foo_text ''bar'') d = Inr [Some (tree_set_foo ''bar'')]"
  "parse stub set_foo_script d = Inr [Some (tree_set_foo ''bar''), Some (tree_set_foo ''baz'')]"
  by (simp_all add: stub_fields stub_parse_def cte_query_def set_foo_text_def
      set_foo_script_def single_quote_def set_three_text_def
      explain_analyze_newline_delete_def analyze_newline_delete_def)

lemmas init_eval =
  SQLStatement_init_def SQLStatement_parse_statement_def parse_stub dialects_eval
  extract_delete extract_on_t extract_select_1 extract_explain extract_set_foo
  extract_cte_query extract_commands





section \<open>Claims about the splitter\<close>

text \<open>
  Claim C9, as stated: from \<open>OUTSIDE_STRING\<close> a double-backtick sequence enters the
  multi-line state and a double-backtick sequence leaves it, and a separator inside a
  quoted state ends no segment. The code asks for more than two backticks: in the text of
  two backticks, a separator and two backticks, the scanner is still outside after the
  first two backticks and the separator splits the text.
\<close>

theorem double_backtick_counterexample:
  "kql_state_before [backtick, backtick, semicolon, backtick, backtick] 2 = OUTSIDE_STRING
   \<and> split_kql [backtick, backtick, semicolon, backtick, backtick]
       = [[backtick, backtick], [backtick, backtick]]"
  by (simp add: kql_state_before_def kql_run_def split_kql_def kql_query_def endswith_def
      kql_init_def kql_body_def py_slice_def py_norm_index_def py_getitem_def enumerate_eq_zip
      backtick_def semicolon_def single_quote_def double_quote_def upt_rec numeral_2_eq_2)

text \<open>
  Claim C9, amended: at a position \<open>i\<close> of the query, a backtick met in
  \<open>OUTSIDE_STRING\<close> enters \<open>INSIDE_MULTILINE_STRING\<close> exactly when the two characters
  before it are backticks (it is the third of three), and otherwise changes nothing; a
  backtick met in \<open>INSIDE_MULTILINE_STRING\<close> returns to \<open>OUTSIDE_STRING\<close> under the same
  condition; and in every state other than \<open>OUTSIDE_STRING\<close> a separator leaves the
  state, the start of the segment and the segments as they are.
\<close>

theorem triple_backtick_transitions:
  "i < length query \<longrightarrow>
     kql_body query (i, backtick) (OUTSIDE_STRING, start, stmts) =
       (if 2 \<le> i \<and> query ! (i - 2) = backtick \<and> query ! (i - 1) = backtick
        then INSIDE_MULTILINE_STRING else OUTSIDE_STRING, start, stmts)
     \<and> kql_body query (i, backtick) (INSIDE_MULTILINE_STRING, start, stmts) =
       (if 2 \<le> i \<and> query ! (i - 2) = backtick \<and> query ! (i - 1) = backtick
        then OUTSIDE_STRING else INSIDE_MULTILINE_STRING, start, stmts)
     \<and> (state \<noteq> OUTSIDE_STRING \<longrightarrow>
          kql_body query (i, semicolon) (state, start, stmts) = (state, start, stmts))"
proof
  assume "i < length query"
  then have le: "i \<le> length query" by simp
  have chars: "backtick \<noteq> semicolon" "backtick \<noteq> single_quote" "backtick \<noteq> double_quote"
    "semicolon \<noteq> single_quote" "semicolon \<noteq> double_quote" "semicolon \<noteq> backtick"
    by (simp_all add: backtick_def semicolon_def single_quote_def double_quote_def)
  show "kql_body query (i, backtick) (OUTSIDE_STRING, start, stmts) =
       (if 2 \<le> i \<and> query ! (i - 2) = backtick \<and> query ! (i - 1) = backtick
        then INSIDE_MULTILINE_STRING else OUTSIDE_STRING, start, stmts)
     \<and> kql_body query (i, backtick) (INSIDE_MULTILINE_STRING, start, stmts) =
       (if 2 \<le> i \<and> query ! (i - 2) = backtick \<and> query ! (i - 1) = backtick
        then OUTSIDE_STRING else INSIDE_MULTILINE_STRING, start, stmts)
     \<and> (state \<noteq> OUTSIDE_STRING \<longrightarrow>
          kql_body query (i, semicolon) (state, start, stmts) = (state, start, stmts))"
    by (simp add: kql_body_def py_slice_lookbehind[OF le] chars)
qed

theorem triple_backtick_transitions_witness:
  "kql_body [backtick, backtick, backtick, semicolon] (2, backtick) (OUTSIDE_STRING, 0, [])
     = (INSIDE_MULTILINE_STRING, 0, [])
   \<and> kql_body [backtick, backtick, backtick, semicolon] (3, semicolon)
       (INSIDE_MULTILINE_STRING, 0, [])
     = (INSIDE_MULTILINE_STRING, 0, [])"
  using triple_backtick_transitions
          [of 2 "[backtick, backtick, backtick, semicolon]" 0 "[]" INSIDE_MULTILINE_STRING]
        triple_backtick_transitions
          [of 3 "[backtick, backtick, backtick, semicolon]" 0 "[]" INSIDE_MULTILINE_STRING]
  by simp




text \<open>
  Claim C10, as stated: for every input string \<open>split_kql\<close> returns at least one
  segment. A text that leaves a string literal open returns none, because the appended
  separator falls inside the literal: for a single quote character there is no segment,
  and the constructor fails.
\<close>

theorem unterminated_literal_counterexample:
  "split_kql [single_quote] = []
   \<and> fst (KustoKQLStatement_init [single_quote] ''kustokql'' []) = Inl NotSingleStatement"
proof -
  have "split_kql [single_quote] = []"
    by (simp add: split_kql_def kql_query_def endswith_def kql_init_def kql_body_def
      py_slice_def py_norm_index_def py_getitem_def enumerate_eq_zip backtick_def
      semicolon_def single_quote_def double_quote_def backslash_def)
  then show ?thesis
    by (simp add: KustoKQLStatement_init_def KustoKQLStatement_parse_statement_def)
qed


text \<open>
  Claim C10, amended: \<open>split_kql\<close> returns at least one segment for every text at whose
  end the scanner is outside every string literal; the empty text gives one empty
  segment; a textual statement built from white space only, with the engine
  \<open>kustokql\<close>, is the empty statement; the textual split succeeds on every text and
  wraps each segment, stripped, as a statement, the empty ones too; the statements of a
  grammar-backed split are the parse units that are not \<open>None\<close>.
\<close>

theorem textual_split_keeps_segments:
  "(kql_final_state kql = OUTSIDE_STRING \<longrightarrow> split_kql kql \<noteq> [])
   \<and> split_kql [] = [[]]
   \<and> ((\<forall>c\<in>set text. isspace c) \<longrightarrow>
        KustoKQLStatement_init text ''kustokql'' lg =
          (Inr \<lparr>self_parsed = [], self_engine = ''kustokql'', self_tables = {}\<rparr>,
           lg @ [table_extraction_warning]))
   \<and> KustoKQLStatement_split_query query ''kustokql'' lg =
        (Inr (map (\<lambda>seg. \<lparr>self_parsed = strip seg, self_engine = ''kustokql'',
                           self_tables = {}\<rparr>) (split_kql query)),
         lg @ replicate (length (split_kql query)) table_extraction_warning)
   \<and> (parse G q (SQLGLOT_DIALECTS engine) = Inr units
        \<and> SQLStatement_split_query G q engine = Inr sts \<longrightarrow>
        map self_parsed sts = [tree. Some tree \<leftarrow> units])"
proof (intro conjI impI)
  assume "kql_final_state kql = OUTSIDE_STRING"
  then show "split_kql kql \<noteq> []" by (rule split_kql_nonempty)
next
  show "split_kql [] = [[]]" using split_kql_plain[of "[]"] by simp
next
  assume sp: "\<forall>c\<in>set text. isspace c"
  then have "\<forall>c\<in>set text. c \<notin> {semicolon, single_quote, double_quote, backtick}"
    using isspace_plain by blast
  then have "split_kql text = [text]" by (rule split_kql_plain)
  then show "KustoKQLStatement_init text ''kustokql'' lg =
          (Inr \<lparr>self_parsed = [], self_engine = ''kustokql'', self_tables = {}\<rparr>,
           lg @ [table_extraction_warning])"
    using strip_spaces[OF sp] by (simp add: KustoKQLStatement_init_single)
next
  have "\<forall>seg\<in>set (split_kql query). split_kql seg = [seg]"
    using split_kql_resplit by blast
  then show "KustoKQLStatement_split_query query ''kustokql'' lg =
        (Inr (map (\<lambda>seg. \<lparr>self_parsed = strip seg, self_engine = ''kustokql'',
                           self_tables = {}\<rparr>) (split_kql query)),
         lg @ replicate (length (split_kql query)) table_extraction_warning)"
    unfolding KustoKQLStatement_split_query_def by (rule KustoKQLStatement_init_all_segments)
next
  assume "parse G q (SQLGLOT_DIALECTS engine) = Inr units
        \<and> SQLStatement_split_query G q engine = Inr sts"
  then show "map self_parsed sts = [tree. Some tree \<leftarrow> units]"
    using SQLStatement_split_query_parsed by blast
qed

theorem textual_split_keeps_segments_witness:
  "kql_final_state ''a'' = OUTSIDE_STRING \<and> split_kql ''a'' \<noteq> []
   \<and> list_all isspace ''  ''
   \<and> fst (KustoKQLStatement_init ''  '' ''kustokql'' []) =
       Inr \<lparr>self_parsed = [], self_engine = ''kustokql'', self_tables = {}\<rparr>
   \<and> fst (KustoKQLStatement_split_query [semicolon, semicolon] ''kustokql'' []) =
       Inr [\<lparr>self_parsed = [], self_engine = ''kustokql'', self_tables = {}\<rparr>,
            \<lparr>self_parsed = [], self_engine = ''kustokql'', self_tables = {}\<rparr>]
   \<and> parse stub ''SELECT 1;;'' (SQLGLOT_DIALECTS ''sqlite'') = Inr [Some tree_select_1, None]
   \<and> (\<exists>sts. SQLStatement_split_query stub ''SELECT 1;;'' ''sqlite'' = Inr sts
        \<and> map self_parsed sts = [tree_select_1])"
proof -
  have a: "kql_final_state ''a'' = OUTSIDE_STRING" by (simp add: kql_eval)
  have b: "\<forall>c\<in>set ''  ''. isspace c" by (simp add: isspace_def)
  have c: "split_kql [semicolon, semicolon] = [[], []]" by (simp add: kql_eval)
  have d: "parse stub ''SELECT 1;;'' (SQLGLOT_DIALECTS ''sqlite'') = Inr [Some tree_select_1, None]"
    by (simp add: stub_fields stub_parse_def set_foo_text_def set_foo_script_def
        set_three_text_def explain_analyze_newline_delete_def analyze_newline_delete_def)
  have e: "SQLStatement_split_query stub ''SELECT 1;;'' ''sqlite'' =
        Inr [\<lparr>self_parsed = tree_select_1, self_engine = ''sqlite'', self_tables = {},
               self_dialect = SQLGLOT_DIALECTS ''sqlite''\<rparr>]"
    by (simp add: SQLStatement_split_query_def d init_select_1)
  show ?thesis
    using textual_split_keeps_segments
      [of "''a''" "''  ''" "[]" "[semicolon, semicolon]" stub "''SELECT 1;;''" "''sqlite''"
          "[Some tree_select_1, None]"
          "[\<lparr>self_parsed = tree_select_1, self_engine = ''sqlite'', self_tables = {},
               self_dialect = SQLGLOT_DIALECTS ''sqlite''\<rparr>]"]
      a b c d e
    by (simp add: strip_def list_all_iff)
qed

section \<open>Claims about the statement constructors\<close>

text \<open>
  Claim C7, as stated: constructing a statement of either variant from text that splits
  into zero or more than one statement fails with the error \<open>NotSingleStatement\<close>. The
  textual constructor tests the engine first: with the engine \<open>sqlite\<close> the text
  \<open>a;b\<close>, which splits in two, fails with \<open>InvalidEngine\<close>.
\<close>

theorem invalid_engine_counterexample:
  "length (split_kql ''a;b'') = 2
   \<and> fst (KustoKQLStatement_init ''a;b'' ''sqlite'' []) = Inl (InvalidEngine ''sqlite'')
   \<and> InvalidEngine ''sqlite'' \<noteq> NotSingleStatement"
proof -
  have "length (split_kql ''a;b'') = 2" by (simp add: kql_eval)
  then show ?thesis
    by (simp add: KustoKQLStatement_init_def KustoKQLStatement_parse_statement_def
        InvalidEngine_def NotSingleStatement_def)
qed

text \<open>
  Claim C7, amended: the textual constructor with the engine \<open>kustokql\<close> fails with
  \<open>NotSingleStatement\<close> on every text that does not split into exactly one segment, and
  with any other engine it fails with \<open>InvalidEngine\<close> whatever the text; the
  grammar-backed constructor fails with \<open>NotSingleStatement\<close> whenever the parser
  accepts the text and returns zero or more than one non-empty unit; and a statement
  that either constructor returns comes from exactly one segment, respectively one
  non-empty parse unit, which is its internal representation (a statement built from a
  tree holds that tree).
\<close>

theorem single_statement:
  "(length (split_kql text) \<noteq> 1 \<longrightarrow>
      fst (KustoKQLStatement_init text ''kustokql'' lg) = Inl NotSingleStatement)
   \<and> (engine_id \<noteq> ''kustokql'' \<longrightarrow>
      fst (KustoKQLStatement_init text engine_id lg) = Inl (InvalidEngine engine_id))
   \<and> (fst (KustoKQLStatement_init text engine_id lg) = Inr s \<longrightarrow>
      engine_id = ''kustokql''
      \<and> (\<exists>seg. split_kql text = [seg] \<and> self_parsed s = strip seg))
   \<and> (parse G text (SQLGLOT_DIALECTS engine_id) = Inr units
        \<and> length [t. Some t \<leftarrow> units] \<noteq> 1 \<longrightarrow>
      SQLStatement_init G (FromText text) engine_id = Inl NotSingleStatement)
   \<and> (SQLStatement_init G (FromText text) engine_id = Inr s' \<longrightarrow>
      (\<exists>units. parse G text (SQLGLOT_DIALECTS engine_id) = Inr units
             \<and> [t. Some t \<leftarrow> units] = [self_parsed s']))
   \<and> (SQLStatement_init G (FromParsed tree) engine_id = Inr s' \<longrightarrow> self_parsed s' = tree)"
proof (intro conjI impI)
  assume "length (split_kql text) \<noteq> 1"
  then show "fst (KustoKQLStatement_init text ''kustokql'' lg) = Inl NotSingleStatement"
    by (simp add: KustoKQLStatement_init_def KustoKQLStatement_parse_statement_def)
next
  assume "engine_id \<noteq> ''kustokql''"
  then show "fst (KustoKQLStatement_init text engine_id lg) = Inl (InvalidEngine engine_id)"
    by (simp add: KustoKQLStatement_init_def KustoKQLStatement_parse_statement_def)
next
  assume ok: "fst (KustoKQLStatement_init text engine_id lg) = Inr s"
  then show "engine_id = ''kustokql''"
    by (auto simp: KustoKQLStatement_init_def KustoKQLStatement_parse_statement_def
        split: if_splits)
  from ok have one: "length (split_kql text) = 1" and
    p: "self_parsed s = strip (split_kql text ! 0)"
    by (auto simp: KustoKQLStatement_init_def KustoKQLStatement_parse_statement_def
        KustoKQLStatement_extract_tables_from_statement_def Let_def split: if_splits)
  from one obtain seg where seg: "split_kql text = [seg]"
    by (cases "split_kql text") simp_all
  with p show "\<exists>seg. split_kql text = [seg] \<and> self_parsed s = strip seg" by simp
next
  assume "parse G text (SQLGLOT_DIALECTS engine_id) = Inr units
        \<and> length [t. Some t \<leftarrow> units] \<noteq> 1"
  then show "SQLStatement_init G (FromText text) engine_id = Inl NotSingleStatement"
    by (simp add: SQLStatement_init_def SQLStatement_parse_statement_def)
next
  assume ok: "SQLStatement_init G (FromText text) engine_id = Inr s'"
  then obtain units where u: "parse G text (SQLGLOT_DIALECTS engine_id) = Inr units"
    by (cases "parse G text (SQLGLOT_DIALECTS engine_id)")
       (auto simp: SQLStatement_init_def SQLStatement_parse_statement_def
        split: sum.splits sqlglot_error.splits)
  let ?ts = "[t. Some t \<leftarrow> units]"
  from ok u have one: "length ?ts = 1" and p: "self_parsed s' = ?ts ! 0"
    by (auto simp: SQLStatement_init_def SQLStatement_parse_statement_def Let_def
        split: sum.splits if_splits)
  from somes_singleton[OF one] p have "?ts = [self_parsed s']" by simp
  with u show "\<exists>units. parse G text (SQLGLOT_DIALECTS engine_id) = Inr units
             \<and> [t. Some t \<leftarrow> units] = [self_parsed s']" by blast
next
  assume "SQLStatement_init G (FromParsed tree) engine_id = Inr s'"
  then show "self_parsed s' = tree" by (rule SQLStatement_init_parsed)
qed

theorem single_statement_witness:
  "length (split_kql ''SELECT 1; DELETE FROM t'') \<noteq> 1
   \<and> fst (KustoKQLStatement_init ''SELECT 1; DELETE FROM t'' ''kustokql'' [])
       = Inl NotSingleStatement
   \<and> fst (KustoKQLStatement_init ''SELECT 1; DELETE FROM t'' ''sqlite'' [])
       = Inl (InvalidEngine ''sqlite'')
   \<and> parse stub ''SELECT 1; DELETE FROM t'' (SQLGLOT_DIALECTS ''sqlite'')
       = Inr [Some tree_select_1, Some tree_delete]
   \<and> SQLStatement_init stub (FromText ''SELECT 1; DELETE FROM t'') ''sqlite''
       = Inl NotSingleStatement
   \<and> fst (KustoKQLStatement_init ''SELECT 1'' ''kustokql'' [])
       = Inr \<lparr>self_parsed = ''SELECT 1'', self_engine = ''kustokql'', self_tables = {}\<rparr>
   \<and> (\<exists>seg. split_kql ''SELECT 1'' = [seg] \<and> ''SELECT 1'' = strip seg)
   \<and> SQLStatement_init stub (FromText ''SELECT 1'') ''sqlite''
       = Inr \<lparr>self_parsed = tree_select_1, self_engine = ''sqlite'', self_tables = {},
              self_dialect = Some SQLITE\<rparr>
   \<and> (\<exists>units. parse stub ''SELECT 1'' (SQLGLOT_DIALECTS ''sqlite'') = Inr units
          \<and> [t. Some t \<leftarrow> units] = [tree_select_1])"
proof -
  let ?two = "''SELECT 1; DELETE FROM t''" and ?one = "''SELECT 1''"
  let ?k = "\<lparr>self_parsed = ?one, self_engine = ''kustokql'', self_tables = {}\<rparr>"
  let ?q = "\<lparr>self_parsed = tree_select_1, self_engine = ''sqlite'', self_tables = {},
              self_dialect = Some SQLITE\<rparr>"
  have a: "length (split_kql ?two) \<noteq> 1" by (simp add: kql_eval)
  have b: "parse stub ?two d = Inr [Some tree_select_1, Some tree_delete]" for d
    by (simp add: stub_fields stub_parse_def set_foo_text_def set_foo_script_def
        set_three_text_def explain_analyze_newline_delete_def analyze_newline_delete_def)
  have b': "length [t. Some t \<leftarrow> [Some tree_select_1, Some tree_delete]] \<noteq> 1" by simp
  have c: "split_kql ?one = [?one]"
    by (rule split_kql_plain)
       (simp add: semicolon_def single_quote_def double_quote_def backtick_def)
  then have d: "fst (KustoKQLStatement_init ?one ''kustokql'' []) = Inr ?k"
    by (simp add: KustoKQLStatement_init_single strip_def isspace_def)
  have e: "parse stub ?one d = Inr [Some tree_select_1]" for d
    by (simp add: stub_fields stub_parse_def set_foo_text_def set_foo_script_def
        set_three_text_def explain_analyze_newline_delete_def analyze_newline_delete_def)
  have f: "SQLStatement_init stub (FromText ?one) ''sqlite'' = Inr ?q"
    by (simp add: SQLStatement_init_def SQLStatement_parse_statement_def e extract_select_1
        dialects_eval)
  have ne: "''sqlite'' \<noteq> ''kustokql''" by simp
  note t = single_statement[of ?two "[]" "''sqlite''" _ stub
      "[Some tree_select_1, Some tree_delete]"]
  have 1: "fst (KustoKQLStatement_init ?two ''kustokql'' []) = Inl NotSingleStatement"
    using t[THEN conjunct1] a by (rule mp)
  have 2: "fst (KustoKQLStatement_init ?two ''sqlite'' []) = Inl (InvalidEngine ''sqlite'')"
    using t[THEN conjunct2, THEN conjunct1] ne by (rule mp)
  have 4: "SQLStatement_init stub (FromText ?two) ''sqlite'' = Inl NotSingleStatement"
    using t[THEN conjunct2, THEN conjunct2, THEN conjunct2, THEN conjunct1] conjI[OF b b']
    by (rule mp)
  have 3: "''kustokql'' = ''kustokql''
      \<and> (\<exists>seg. split_kql ?one = [seg] \<and> self_parsed ?k = strip seg)"
    using single_statement[of ?one "[]" "''kustokql''" ?k, THEN conjunct2, THEN conjunct2,
        THEN conjunct1] d
    by (rule mp)
  have 5: "\<exists>units. parse stub ?one (SQLGLOT_DIALECTS ''sqlite'') = Inr units
          \<and> [t. Some t \<leftarrow> units] = [self_parsed ?q]"
    using single_statement[of ?one "[]" "''sqlite''" _ stub _ ?q, THEN conjunct2,
        THEN conjunct2, THEN conjunct2, THEN conjunct2, THEN conjunct1] f
    by (rule mp)
  from 3 have k3: "\<exists>seg. split_kql ?one = [seg] \<and> ?one = strip seg" by simp
  from 5 have k5: "\<exists>units. parse stub ?one (SQLGLOT_DIALECTS ''sqlite'') = Inr units
          \<and> [t. Some t \<leftarrow> units] = [tree_select_1]" by simp
  show ?thesis
    by (intro conjI) (rule a 1 2 b 4 d k3 f k5)+
qed

text \<open>
  Claim C8: for the textual dialect \<open>_extract_tables_from_statement\<close> returns the empty
  set for every text and every engine, and its only effect is one record of level
  \<open>WARNING\<close> appended to the log; it has no error result. So every statement that the
  constructor returns has the empty set of tables.
\<close>

theorem kql_tables_always_empty:
  "KustoKQLStatement_extract_tables_from_statement parsed_text engine_id lg
     = ({}, lg @ [table_extraction_warning])
   \<and> fst table_extraction_warning = WARNING
   \<and> (KustoKQLStatement_init text engine_id lg = (Inr s, lg') \<longrightarrow>
        self_tables s = {} \<and> lg' = lg @ [table_extraction_warning])"
  by (auto simp: KustoKQLStatement_extract_tables_from_statement_def
      table_extraction_warning_def KustoKQLStatement_init_def split: sum.splits)

theorem kql_tables_always_empty_witness:
  "KustoKQLStatement_init ''StormEvents | join (PopulationData) on State'' ''kustokql'' []
     = (Inr \<lparr>self_parsed = ''StormEvents | join (PopulationData) on State'',
             self_engine = ''kustokql'', self_tables = {}\<rparr>, [table_extraction_warning])
   \<and> self_tables \<lparr>self_parsed = ''StormEvents | join (PopulationData) on State'',
             self_engine = ''kustokql'', self_tables = {}\<rparr> = {}"
proof -
  have "split_kql ''StormEvents | join (PopulationData) on State''
        = [''StormEvents | join (PopulationData) on State'']"
    by (rule split_kql_plain)
       (simp add: semicolon_def single_quote_def double_quote_def backtick_def)
  then have i: "KustoKQLStatement_init ''StormEvents | join (PopulationData) on State''
      ''kustokql'' []
     = (Inr \<lparr>self_parsed = ''StormEvents | join (PopulationData) on State'',
             self_engine = ''kustokql'', self_tables = {}\<rparr>, [table_extraction_warning])"
    by (simp add: KustoKQLStatement_init_single strip_def isspace_def)
  show ?thesis
    using i kql_tables_always_empty
      [of "''x''" "''kustokql''" "[]" "''StormEvents | join (PopulationData) on State''"
          "\<lparr>self_parsed = ''StormEvents | join (PopulationData) on State'',
             self_engine = ''kustokql'', self_tables = {}\<rparr>" "[table_extraction_warning]"]
    by simp
qed

section \<open>Claims about Table\<close>

text \<open>
  Claim C3: equality compares the canonical strings, and the canonical string is built
  from catalog, schema and table in that order, absent parts left out, each part
  percent-encoded with every dot replaced, so that no encoded part contains a dot; a bare
  table \<open>t\<close> renders as \<open>t\<close> and schema \<open>s\<close> with table \<open>t\<close> as \<open>s.t\<close>. The hash is not
  computed from that string: the generated \<open>__hash__\<close> hashes the tuple of the fields.
  The table \<open>t\<close> of schema \<open>s\<close> and the table \<open>t\<close> of catalog \<open>s\<close> have the same canonical
  string and are equal, while the tuples that are hashed differ, so that some hash
  function on tuples gives the two equal tables different hashes.
\<close>

theorem table_hash_not_canonical:
  "(Table_eq a b \<longleftrightarrow> Table_str a = Table_str b)
   \<and> Table_str \<lparr>table = ''t'', schema = None, catalog = None\<rparr> = ''t''
   \<and> Table_str \<lparr>table = ''t'', schema = Some ''s'', catalog = None\<rparr> = ''s.t''
   \<and> CHR ''.'' \<notin> set (replace_dot (quote part))
   \<and> Table_str \<lparr>table = ''t'', schema = None, catalog = Some ''s''\<rparr> = ''s.t''
   \<and> Table_eq \<lparr>table = ''t'', schema = Some ''s'', catalog = None\<rparr>
               \<lparr>table = ''t'', schema = None, catalog = Some ''s''\<rparr>
   \<and> Table_hash_key \<lparr>table = ''t'', schema = Some ''s'', catalog = None\<rparr>
       \<noteq> Table_hash_key \<lparr>table = ''t'', schema = None, catalog = Some ''s''\<rparr>
   \<and> (\<exists>py_hash. Table_hash py_hash \<lparr>table = ''t'', schema = Some ''s'', catalog = None\<rparr>
          \<noteq> Table_hash py_hash \<lparr>table = ''t'', schema = None, catalog = Some ''s''\<rparr>)"
proof -
  let ?a = "\<lparr>table = ''t'', schema = Some ''s'', catalog = None\<rparr>"
  let ?b = "\<lparr>table = ''t'', schema = None, catalog = Some ''s''\<rparr>"
  have k: "Table_hash_key ?a \<noteq> Table_hash_key ?b"
    by (simp add: Table_hash_key_def)
  then have "Table_hash (\<lambda>key. if key = Table_hash_key ?a then 0 else 1) ?a
      \<noteq> Table_hash (\<lambda>key. if key = Table_hash_key ?a then 0 else 1) ?b"
    by (simp add: Table_hash_def)
  then have h: "\<exists>py_hash. Table_hash py_hash ?a \<noteq> Table_hash py_hash ?b" by blast
  have r: "Table_str \<lparr>table = ''t'', schema = None, catalog = None\<rparr> = ''t''"
    "Table_str ?a = ''s.t''" "Table_str ?b = ''s.t''"
    by (simp_all add: Table_str_def quote_def quote_byte_def always_safe_def utf8_encode_def
        replace_dot_def)
  show ?thesis
    using k h r by (simp add: Table_eq_def replace_dot_no_dot)
qed

section \<open>Claims about the grammar-backed statement\<close>

text \<open>
  Claim C1: \<open>is_cte\<close> holds of a table reference and a scope exactly when the parent of
  the scope binds the reference's name to a scope of type \<open>CTE\<close>; for a statement
  that is neither a \<open>DESCRIBE\<close> nor a command, the extracted tables are the table
  references bound in some scope for which \<open>is_cte\<close> fails, so such a reference is
  excluded; and for the scopes of
  \<open>WITH foo AS (SELECT * FROM target_table) SELECT * FROM foo\<close> the result is exactly
  the table \<open>target_table\<close>, without \<open>foo\<close>.
\<close>

theorem cte_alias_excluded:
  "(is_cte G source scope \<longleftrightarrow>
      (\<exists>p parent_scope. parent scope = Some p
         \<and> (exp_name G source, SourceScope parent_scope) \<in> set (sources p)
         \<and> scope_type parent_scope = CTE))
   \<and> (exp_type G statement \<noteq> exp_Describe \<and> exp_type G statement \<noteq> exp_Command
        \<and> traverse_scope G statement = Inr scopes \<longrightarrow>
        extract_tables_from_statement G statement dialect_opt =
          Inr (source_table G `
                 {source. \<exists>scope name. scope \<in> set scopes
                    \<and> (name, SourceExp source) \<in> set (sources scope)
                    \<and> exp_type G source = exp_Table \<and> \<not> is_cte G source scope}))
   \<and> (exp_type G statement \<noteq> exp_Describe \<and> exp_type G statement \<noteq> exp_Command
        \<and> traverse_scope G statement = Inr (cte_query_scopes target)
        \<and> exp_type G target = exp_Table \<and> exp_name G target = ''target_table''
        \<and> exp_db G target = [] \<and> exp_catalog G target = [] \<longrightarrow>
        extract_tables_from_statement G statement dialect_opt =
          Inr {\<lparr>table = ''target_table'', schema = None, catalog = None\<rparr>})"
proof (intro conjI impI)
  show "is_cte G source scope \<longleftrightarrow>
      (\<exists>p parent_scope. parent scope = Some p
         \<and> (exp_name G source, SourceScope parent_scope) \<in> set (sources p)
         \<and> scope_type parent_scope = CTE)"
    by (rule is_cte_iff)
next
  assume "exp_type G statement \<noteq> exp_Describe \<and> exp_type G statement \<noteq> exp_Command
        \<and> traverse_scope G statement = Inr scopes"
  then show "extract_tables_from_statement G statement dialect_opt =
          Inr (source_table G `
                 {source. \<exists>scope name. scope \<in> set scopes
                    \<and> (name, SourceExp source) \<in> set (sources scope)
                    \<and> exp_type G source = exp_Table \<and> \<not> is_cte G source scope})"
    by (simp add: extract_tables_from_statement_def set_scope_sources)
next
  assume h: "exp_type G statement \<noteq> exp_Describe \<and> exp_type G statement \<noteq> exp_Command
        \<and> traverse_scope G statement = Inr (cte_query_scopes target)
        \<and> exp_type G target = exp_Table \<and> exp_name G target = ''target_table''
        \<and> exp_db G target = [] \<and> exp_catalog G target = []"
  then have "scope_sources G (cte_query_scopes target) = [target]"
    by (simp add: scope_sources_def cte_query_scopes_def is_cte_def Let_def)
  then show "extract_tables_from_statement G statement dialect_opt =
          Inr {\<lparr>table = ''target_table'', schema = None, catalog = None\<rparr>}"
    using h by (simp add: extract_tables_from_statement_def source_table_def)
qed

theorem cte_alias_excluded_witness:
  "SQLStatement_init stub (FromText cte_query) ''postgresql'' =
     Inr \<lparr>self_parsed = tree_cte_query, self_engine = ''postgresql'',
          self_tables = {\<lparr>table = ''target_table'', schema = None, catalog = None\<rparr>},
          self_dialect = Some POSTGRES\<rparr>
   \<and> traverse_scope stub tree_cte_query = Inr (cte_query_scopes (ast_table ''target_table''))
   \<and> extract_tables_from_statement stub tree_cte_query (Some POSTGRES) =
       Inr {\<lparr>table = ''target_table'', schema = None, catalog = None\<rparr>}
   \<and> is_cte stub (ast_table ''foo'')
        (Scope (Some (Scope None ROOT [(''foo'', SourceScope (Scope None CTE []))])) SUBQUERY
           [(''foo'', SourceExp (ast_table ''foo''))])"
proof -
  let ?target = "ast_table ''target_table''"
  let ?root = "Scope None ROOT [(''foo'', SourceScope (Scope None CTE []))]"
  let ?sub = "Scope (Some ?root) SUBQUERY [(''foo'', SourceExp (ast_table ''foo''))]"
  have i: "SQLStatement_init stub (FromText cte_query) ''postgresql'' =
     Inr \<lparr>self_parsed = tree_cte_query, self_engine = ''postgresql'',
          self_tables = {\<lparr>table = ''target_table'', schema = None, catalog = None\<rparr>},
          self_dialect = Some POSTGRES\<rparr>"
    by (simp add: init_eval)
  have t: "traverse_scope stub tree_cte_query = Inr (cte_query_scopes ?target)"
    by (simp add: stub_fields stub_traverse_scope_def)
  have h: "exp_type stub tree_cte_query \<noteq> exp_Describe
        \<and> exp_type stub tree_cte_query \<noteq> exp_Command
        \<and> traverse_scope stub tree_cte_query = Inr (cte_query_scopes ?target)
        \<and> exp_type stub ?target = exp_Table \<and> exp_name stub ?target = ''target_table''
        \<and> exp_db stub ?target = [] \<and> exp_catalog stub ?target = []"
    using t by (simp add: stub_fields tree_cte_query_def ast_table_def)
  have e: "extract_tables_from_statement stub tree_cte_query (Some POSTGRES) =
       Inr {\<lparr>table = ''target_table'', schema = None, catalog = None\<rparr>}"
    using cte_alias_excluded[of stub _ _ tree_cte_query _ _ ?target, THEN conjunct2,
        THEN conjunct2] h
    by (rule mp)
  have "\<exists>p parent_scope. parent ?sub = Some p
         \<and> (exp_name stub (ast_table ''foo''), SourceScope parent_scope) \<in> set (sources p)
         \<and> scope_type parent_scope = CTE"
    by (simp add: stub_fields ast_table_def)
  then have c: "is_cte stub (ast_table ''foo'') ?sub"
    using cte_alias_excluded[of stub "ast_table ''foo''" ?sub, THEN conjunct1] by (rule iffD2[rotated])
  show ?thesis by (intro conjI) (rule i t e c)+
qed

text \<open>
  Claim C4: \<open>is_mutating\<close> looks for a node that is an insert, update, delete, merge,
  create, drop or truncate-table node or a command named \<open>ALTER\<close>. When the tree has
  one, the result is true. When it has none, the result is false for every statement that
  is not an \<open>EXPLAIN\<close> command under the Postgres dialect, and for such a command whose
  operand does not begin with \<open>ANALYZE\<close> followed by a space. For such a command with no
  operand at all, as the parser gives for the text \<open>EXPLAIN\<close>, the method raises
  \<open>AttributeError\<close> instead of returning false. In particular a tree whose root is an
  insert, update, delete, create or drop node is mutating.
\<close>

theorem is_mutating_by_node_kind:
  "(let found = (\<exists>node\<in>set (walk G (self_parsed s)).
                   exp_type G node \<in> {exp_Insert, exp_Update, exp_Delete, exp_Merge, exp_Create,
                                      exp_Drop, exp_TruncateTable}
                   \<or> (exp_type G node = exp_Command \<and> exp_name G node = ''ALTER''));
        explain = (self_dialect s = Some POSTGRES \<and> exp_type G (self_parsed s) = exp_Command
                   \<and> exp_name G (self_parsed s) = ''EXPLAIN'')
    in (found \<longrightarrow> SQLStatement_is_mutating fuel G s = Some (Inr True))
     \<and> (\<not> found \<and> \<not> explain \<longrightarrow> SQLStatement_is_mutating fuel G s = Some (Inr False))
     \<and> (\<not> found \<and> explain \<and> exp_expression G (self_parsed s) = ArgExp operand
          \<and> \<not> (begins_with_analyze (exp_name G operand) \<and> 7 < length (exp_name G operand)
                 \<and> exp_name G operand ! 7 = CHR '' '')
          \<longrightarrow> SQLStatement_is_mutating fuel G s = Some (Inr False))
     \<and> (\<not> found \<and> explain \<and> (\<forall>operand. exp_expression G (self_parsed s) \<noteq> ArgExp operand)
          \<longrightarrow> SQLStatement_is_mutating fuel G s = Some (Inl AttributeError)))
   \<and> (self_parsed s \<in> set (walk G (self_parsed s))
        \<and> exp_type G (self_parsed s) \<in> {exp_Insert, exp_Update, exp_Delete, exp_Create, exp_Drop}
        \<longrightarrow> SQLStatement_is_mutating fuel G s = Some (Inr True))"
proof -
  let ?found = "\<exists>node\<in>set (walk G (self_parsed s)). mutating_node G node"
  let ?explain = "self_dialect s = Some POSTGRES \<and> exp_type G (self_parsed s) = exp_Command
                   \<and> exp_name G (self_parsed s) = ''EXPLAIN''"
  have c1: "?found \<longrightarrow> SQLStatement_is_mutating fuel G s = Some (Inr True)"
    using is_mutating_node_found[of G s fuel] by blast
  have c2: "\<not> ?found \<and> \<not> ?explain \<longrightarrow> SQLStatement_is_mutating fuel G s = Some (Inr False)"
    using is_mutating_no_explain[of s G fuel] by auto
  have c3: "\<not> ?found \<and> ?explain \<and> exp_expression G (self_parsed s) = ArgExp operand
          \<and> \<not> (begins_with_analyze (exp_name G operand) \<and> 7 < length (exp_name G operand)
                 \<and> exp_name G operand ! 7 = CHR '' '')
          \<longrightarrow> SQLStatement_is_mutating fuel G s = Some (Inr False)"
    using is_mutating_no_analyze[of G s operand fuel] unfolding analyze_guard by auto
  have c4: "\<not> ?found \<and> ?explain \<and> (\<forall>operand. exp_expression G (self_parsed s) \<noteq> ArgExp operand)
          \<longrightarrow> SQLStatement_is_mutating fuel G s = Some (Inl AttributeError)"
    using is_mutating_no_operand[of G s fuel] by blast
  have c5: "self_parsed s \<in> set (walk G (self_parsed s))
        \<and> exp_type G (self_parsed s) \<in> {exp_Insert, exp_Update, exp_Delete, exp_Create, exp_Drop}
        \<longrightarrow> SQLStatement_is_mutating fuel G s = Some (Inr True)"
  proof
    assume "self_parsed s \<in> set (walk G (self_parsed s))
        \<and> exp_type G (self_parsed s) \<in> {exp_Insert, exp_Update, exp_Delete, exp_Create, exp_Drop}"
    then have ?found by (auto simp: mutating_node_def)
    then show "SQLStatement_is_mutating fuel G s = Some (Inr True)"
      by (rule is_mutating_node_found)
  qed
  show ?thesis
    unfolding Let_def mutating_node_def[symmetric]
    by (intro conjI) (rule c1 c2 c3 c4 c5)+
qed

theorem is_mutating_by_node_kind_witness:
  "SQLStatement_init stub (FromText ''DELETE FROM t'') ''sqlite'' =
     Inr \<lparr>self_parsed = tree_delete, self_engine = ''sqlite'',
          self_tables = {\<lparr>table = ''t'', schema = None, catalog = None\<rparr>},
          self_dialect = Some SQLITE\<rparr>
   \<and> SQLStatement_is_mutating 0 stub
        \<lparr>self_parsed = tree_delete, self_engine = ''sqlite'',
         self_tables = {\<lparr>table = ''t'', schema = None, catalog = None\<rparr>},
         self_dialect = Some SQLITE\<rparr> = Some (Inr True)
   \<and> (case SQLStatement_init stub (FromText ''INSERT INTO t VALUES (1)'') ''sqlite'' of
         Inl ex \<Rightarrow> Some (Inl ex) | Inr st \<Rightarrow> SQLStatement_is_mutating 0 stub st)
       = Some (Inr True)
   \<and> (case SQLStatement_init stub (FromText ''UPDATE t SET x=1'') ''sqlite'' of
         Inl ex \<Rightarrow> Some (Inl ex) | Inr st \<Rightarrow> SQLStatement_is_mutating 0 stub st)
       = Some (Inr True)
   \<and> (case SQLStatement_init stub
              (FromText ''MERGE INTO t USING u ON t.x = u.x WHEN MATCHED THEN DELETE'') ''sqlite'' of
         Inl ex \<Rightarrow> Some (Inl ex) | Inr st \<Rightarrow> SQLStatement_is_mutating 0 stub st)
       = Some (Inr True)
   \<and> (case SQLStatement_init stub (FromText ''CREATE TABLE t (x INT)'') ''sqlite'' of
         Inl ex \<Rightarrow> Some (Inl ex) | Inr st \<Rightarrow> SQLStatement_is_mutating 0 stub st)
       = Some (Inr True)
   \<and> (case SQLStatement_init stub (FromText ''DROP TABLE t'') ''sqlite'' of
         Inl ex \<Rightarrow> Some (Inl ex) | Inr st \<Rightarrow> SQLStatement_is_mutating 0 stub st)
       = Some (Inr True)
   \<and> (case SQLStatement_init stub (FromText ''TRUNCATE TABLE t'') ''sqlite'' of
         Inl ex \<Rightarrow> Some (Inl ex) | Inr st \<Rightarrow> SQLStatement_is_mutating 0 stub st)
       = Some (Inr True)
   \<and> SQLStatement_init stub (FromText ''ALTER TABLE t ADD COLUMN x INT'') ''sqlite'' =
     Inr \<lparr>self_parsed = tree_alter, self_engine = ''sqlite'', self_tables = {},
          self_dialect = Some SQLITE\<rparr>
   \<and> SQLStatement_is_mutating 0 stub
        \<lparr>self_parsed = tree_alter, self_engine = ''sqlite'', self_tables = {},
         self_dialect = Some SQLITE\<rparr> = Some (Inr True)
   \<and> SQLStatement_init stub (FromText ''SELECT 1'') ''sqlite'' =
     Inr \<lparr>self_parsed = tree_select_1, self_engine = ''sqlite'', self_tables = {},
          self_dialect = Some SQLITE\<rparr>
   \<and> SQLStatement_is_mutating 0 stub
        \<lparr>self_parsed = tree_select_1, self_engine = ''sqlite'', self_tables = {},
         self_dialect = Some SQLITE\<rparr> = Some (Inr False)
   \<and> SQLStatement_init stub (FromText ''EXPLAIN SELECT 1'') ''postgresql'' =
     Inr \<lparr>self_parsed = tree_explain_operand ''SELECT 1'', self_engine = ''postgresql'',
          self_tables = {}, self_dialect = Some POSTGRES\<rparr>
   \<and> SQLStatement_is_mutating 0 stub
        \<lparr>self_parsed = tree_explain_operand ''SELECT 1'', self_engine = ''postgresql'',
         self_tables = {}, self_dialect = Some POSTGRES\<rparr> = Some (Inr False)
   \<and> SQLStatement_init stub (FromText ''EXPLAIN'') ''postgresql'' =
     Inr \<lparr>self_parsed = tree_explain_alone, self_engine = ''postgresql'',
          self_tables = {}, self_dialect = Some POSTGRES\<rparr>
   \<and> SQLStatement_is_mutating 0 stub
        \<lparr>self_parsed = tree_explain_alone, self_engine = ''postgresql'',
         self_tables = {}, self_dialect = Some POSTGRES\<rparr> = Some (Inl AttributeError)"
proof -
  let ?d = "\<lparr>self_parsed = tree_delete, self_engine = ''sqlite'',
         self_tables = {\<lparr>table = ''t'', schema = None, catalog = None\<rparr>},
         self_dialect = Some SQLITE\<rparr>"
  let ?s = "\<lparr>self_parsed = tree_select_1, self_engine = ''sqlite'', self_tables = {},
         self_dialect = Some SQLITE\<rparr>"
  let ?a = "\<lparr>self_parsed = tree_alter, self_engine = ''sqlite'', self_tables = {},
         self_dialect = Some SQLITE\<rparr>"
  let ?es = "\<lparr>self_parsed = tree_explain_operand ''SELECT 1'', self_engine = ''postgresql'',
         self_tables = {}, self_dialect = Some POSTGRES\<rparr>"
  let ?e = "\<lparr>self_parsed = tree_explain_alone, self_engine = ''postgresql'',
         self_tables = {}, self_dialect = Some POSTGRES\<rparr>"
  let ?on = "\<lambda>c q. \<lparr>self_parsed = tree_on_t c q, self_engine = ''sqlite'',
         self_tables = {\<lparr>table = ''t'', schema = None, catalog = None\<rparr>},
         self_dialect = Some SQLITE\<rparr>"
  note kinds = is_mutating_by_node_kind[unfolded Let_def]
  have i1: "SQLStatement_init stub (FromText ''DELETE FROM t'') ''sqlite'' = Inr ?d"
    by (simp add: init_eval)
  have i2: "SQLStatement_init stub (FromText ''SELECT 1'') ''sqlite'' = Inr ?s"
    by (simp add: init_eval)
  have i3: "SQLStatement_init stub (FromText ''INSERT INTO t VALUES (1)'') ''sqlite''
      = Inr (?on exp_Insert ''INSERT INTO t VALUES (1)'')"
    "SQLStatement_init stub (FromText ''UPDATE t SET x=1'') ''sqlite''
      = Inr (?on exp_Update ''UPDATE t SET x=1'')"
    "SQLStatement_init stub
       (FromText ''MERGE INTO t USING u ON t.x = u.x WHEN MATCHED THEN DELETE'') ''sqlite''
      = Inr (?on exp_Merge ''MERGE INTO t USING u ON t.x = u.x WHEN MATCHED THEN DELETE'')"
    "SQLStatement_init stub (FromText ''CREATE TABLE t (x INT)'') ''sqlite''
      = Inr (?on exp_Create ''CREATE TABLE t (x INT)'')"
    "SQLStatement_init stub (FromText ''DROP TABLE t'') ''sqlite''
      = Inr (?on exp_Drop ''DROP TABLE t'')"
    "SQLStatement_init stub (FromText ''TRUNCATE TABLE t'') ''sqlite''
      = Inr (?on exp_TruncateTable ''TRUNCATE TABLE t'')"
    by (simp_all add: init_eval)
  have i4: "SQLStatement_init stub (FromText ''ALTER TABLE t ADD COLUMN x INT'') ''sqlite'' = Inr ?a"
    by (simp add: init_eval)
  have i5: "SQLStatement_init stub (FromText ''EXPLAIN SELECT 1'') ''postgresql'' = Inr ?es"
    by (simp add: init_eval)
  have i6: "SQLStatement_init stub (FromText ''EXPLAIN'') ''postgresql'' = Inr ?e"
    by (simp add: init_eval)
  have h1: "self_parsed ?d \<in> set (walk stub (self_parsed ?d))
        \<and> exp_type stub (self_parsed ?d) \<in> {exp_Insert, exp_Update, exp_Delete, exp_Create, exp_Drop}"
    by (simp add: stub_fields stub_trees)
  have m1: "SQLStatement_is_mutating 0 stub ?d = Some (Inr True)"
    using kinds[where G = stub and s = ?d and fuel = 0, THEN conjunct2] h1
    by (rule mp)
  have h3: "\<exists>node\<in>set (walk stub (self_parsed (?on c q))).
              exp_type stub node \<in> {exp_Insert, exp_Update, exp_Delete, exp_Merge, exp_Create,
                                    exp_Drop, exp_TruncateTable}
              \<or> (exp_type stub node = exp_Command \<and> exp_name stub node = ''ALTER'')"
    if "c \<in> {exp_Insert, exp_Update, exp_Merge, exp_Create, exp_Drop, exp_TruncateTable}" for c q
    using that by (auto simp: stub_fields stub_trees)
  have m3: "SQLStatement_is_mutating 0 stub (?on c q) = Some (Inr True)"
    if "c \<in> {exp_Insert, exp_Update, exp_Merge, exp_Create, exp_Drop, exp_TruncateTable}" for c q
    using kinds[where G = stub and s = "?on c q" and fuel = 0, THEN conjunct1, THEN conjunct1]
      h3[OF that]
    by (rule mp)
  have k: "(case SQLStatement_init stub (FromText ''INSERT INTO t VALUES (1)'') ''sqlite'' of
         Inl ex \<Rightarrow> Some (Inl ex) | Inr st \<Rightarrow> SQLStatement_is_mutating 0 stub st)
       = Some (Inr True)"
    "(case SQLStatement_init stub (FromText ''UPDATE t SET x=1'') ''sqlite'' of
         Inl ex \<Rightarrow> Some (Inl ex) | Inr st \<Rightarrow> SQLStatement_is_mutating 0 stub st)
       = Some (Inr True)"
    "(case SQLStatement_init stub
              (FromText ''MERGE INTO t USING u ON t.x = u.x WHEN MATCHED THEN DELETE'') ''sqlite'' of
         Inl ex \<Rightarrow> Some (Inl ex) | Inr st \<Rightarrow> SQLStatement_is_mutating 0 stub st)
       = Some (Inr True)"
    "(case SQLStatement_init stub (FromText ''CREATE TABLE t (x INT)'') ''sqlite'' of
         Inl ex \<Rightarrow> Some (Inl ex) | Inr st \<Rightarrow> SQLStatement_is_mutating 0 stub st)
       = Some (Inr True)"
    "(case SQLStatement_init stub (FromText ''DROP TABLE t'') ''sqlite'' of
         Inl ex \<Rightarrow> Some (Inl ex) | Inr st \<Rightarrow> SQLStatement_is_mutating 0 stub st)
       = Some (Inr True)"
    "(case SQLStatement_init stub (FromText ''TRUNCATE TABLE t'') ''sqlite'' of
         Inl ex \<Rightarrow> Some (Inl ex) | Inr st \<Rightarrow> SQLStatement_is_mutating 0 stub st)
       = Some (Inr True)"
    unfolding i3 sum.case by (rule m3, simp)+
  have h4: "\<exists>node\<in>set (walk stub (self_parsed ?a)).
              exp_type stub node \<in> {exp_Insert, exp_Update, exp_Delete, exp_Merge, exp_Create,
                                    exp_Drop, exp_TruncateTable}
              \<or> (exp_type stub node = exp_Command \<and> exp_name stub node = ''ALTER'')"
    by (simp add: stub_fields stub_trees)
  have m4: "SQLStatement_is_mutating 0 stub ?a = Some (Inr True)"
    using kinds[where G = stub and s = ?a and fuel = 0, THEN conjunct1, THEN conjunct1] h4
    by (rule mp)
  have h2: "\<not> (\<exists>node\<in>set (walk stub (self_parsed ?s)).
              exp_type stub node \<in> {exp_Insert, exp_Update, exp_Delete, exp_Merge, exp_Create,
                                    exp_Drop, exp_TruncateTable}
              \<or> (exp_type stub node = exp_Command \<and> exp_name stub node = ''ALTER''))
      \<and> \<not> (self_dialect ?s = Some POSTGRES \<and> exp_type stub (self_parsed ?s) = exp_Command
             \<and> exp_name stub (self_parsed ?s) = ''EXPLAIN'')"
    by (simp add: stub_fields stub_trees)
  have m2: "SQLStatement_is_mutating 0 stub ?s = Some (Inr False)"
    using kinds[where G = stub and s = ?s and fuel = 0, THEN conjunct1, THEN conjunct2,
        THEN conjunct1] h2
    by (rule mp)
  have h5: "\<not> (\<exists>node\<in>set (walk stub (self_parsed ?es)).
              exp_type stub node \<in> {exp_Insert, exp_Update, exp_Delete, exp_Merge, exp_Create,
                                    exp_Drop, exp_TruncateTable}
              \<or> (exp_type stub node = exp_Command \<and> exp_name stub node = ''ALTER''))
      \<and> (self_dialect ?es = Some POSTGRES \<and> exp_type stub (self_parsed ?es) = exp_Command
             \<and> exp_name stub (self_parsed ?es) = ''EXPLAIN'')
      \<and> exp_expression stub (self_parsed ?es) = ArgExp (ast_string ''SELECT 1'')
      \<and> \<not> (begins_with_analyze (exp_name stub (ast_string ''SELECT 1''))
            \<and> 7 < length (exp_name stub (ast_string ''SELECT 1''))
            \<and> exp_name stub (ast_string ''SELECT 1'') ! 7 = CHR '' '')"
    by (simp add: stub_fields stub_trees begins_with_analyze_def same_letter_def)
  have m5: "SQLStatement_is_mutating 0 stub ?es = Some (Inr False)"
    using kinds[where G = stub and s = ?es and fuel = 0 and operand = "ast_string ''SELECT 1''",
        THEN conjunct1, THEN conjunct2, THEN conjunct2, THEN conjunct1] h5
    by (rule mp)
  have h6: "\<not> (\<exists>node\<in>set (walk stub (self_parsed ?e)).
              exp_type stub node \<in> {exp_Insert, exp_Update, exp_Delete, exp_Merge, exp_Create,
                                    exp_Drop, exp_TruncateTable}
              \<or> (exp_type stub node = exp_Command \<and> exp_name stub node = ''ALTER''))
      \<and> (self_dialect ?e = Some POSTGRES \<and> exp_type stub (self_parsed ?e) = exp_Command
             \<and> exp_name stub (self_parsed ?e) = ''EXPLAIN'')
      \<and> (\<forall>operand. exp_expression stub (self_parsed ?e) \<noteq> ArgExp operand)"
    by (simp add: stub_fields stub_trees)
  have m6: "SQLStatement_is_mutating 0 stub ?e = Some (Inl AttributeError)"
    using kinds[where G = stub and s = ?e and fuel = 0,
        THEN conjunct1, THEN conjunct2, THEN conjunct2, THEN conjunct2] h6
    by (rule mp)
  show ?thesis by (intro conjI) (rule i1 m1 k i4 m4 i2 m2 i5 m5 i6 m6)+
qed

text \<open>
  Claim C5: under the Postgres dialect, for an \<open>EXPLAIN\<close> command without mutating
  nodes whose operand begins with \<open>ANALYZE\<close>, in any letter case, followed by a space,
  \<open>is_mutating\<close> builds a fresh statement from the operand after its first eight
  characters, for the same engine, and returns what \<open>is_mutating\<close> returns for it (or
  the error of the construction); so it is true when the inner statement has a mutating
  node, as for \<open>EXPLAIN ANALYZE DELETE FROM t\<close>. When \<open>ANALYZE\<close> is followed by anything
  but a space, such as a line feed or a tab, the method returns false without looking at
  the inner statement, even when the inner statement is a \<open>DELETE\<close>. Under any other
  dialect the result is the test of the nodes alone, reached without a recursive call,
  whatever the recursion would return.
\<close>

theorem explain_analyze_recursion:
  "(self_dialect s = Some POSTGRES \<and> exp_type G (self_parsed s) = exp_Command
      \<and> exp_name G (self_parsed s) = ''EXPLAIN''
      \<and> exp_expression G (self_parsed s) = ArgExp operand
      \<and> begins_with_analyze (exp_name G operand)
      \<and> 7 < length (exp_name G operand) \<and> exp_name G operand ! 7 = CHR '' ''
      \<and> \<not> (\<exists>node\<in>set (walk G (self_parsed s)). mutating_node G node)
      \<longrightarrow>
      SQLStatement_is_mutating (Suc fuel) G s =
        (case SQLStatement_init G (FromText (drop 8 (exp_name G operand))) (self_engine s) of
           Inl ex \<Rightarrow> Some (Inl ex)
         | Inr inner \<Rightarrow> SQLStatement_is_mutating fuel G inner)
      \<and> (\<forall>inner. SQLStatement_init G (FromText (drop 8 (exp_name G operand))) (self_engine s)
              = Inr inner
            \<and> (\<exists>node\<in>set (walk G (self_parsed inner)). mutating_node G node)
            \<longrightarrow> SQLStatement_is_mutating (Suc fuel) G s = Some (Inr True)))
   \<and> (self_dialect s = Some POSTGRES \<and> exp_type G (self_parsed s) = exp_Command
      \<and> exp_name G (self_parsed s) = ''EXPLAIN''
      \<and> exp_expression G (self_parsed s) = ArgExp operand
      \<and> begins_with_analyze (exp_name G operand)
      \<and> \<not> (7 < length (exp_name G operand) \<and> exp_name G operand ! 7 = CHR '' '')
      \<and> \<not> (\<exists>node\<in>set (walk G (self_parsed s)). mutating_node G node)
      \<longrightarrow> SQLStatement_is_mutating fuel G s = Some (Inr False))
   \<and> (self_dialect s \<noteq> Some POSTGRES \<longrightarrow>
        SQLStatement_is_mutating 0 G s
          = Some (Inr (\<exists>node\<in>set (walk G (self_parsed s)). mutating_node G node))
        \<and> is_mutating_body recurse G s
          = Some (Inr (\<exists>node\<in>set (walk G (self_parsed s)). mutating_node G node)))"
proof (intro conjI impI allI)
  assume h: "self_dialect s = Some POSTGRES \<and> exp_type G (self_parsed s) = exp_Command
      \<and> exp_name G (self_parsed s) = ''EXPLAIN''
      \<and> exp_expression G (self_parsed s) = ArgExp operand
      \<and> begins_with_analyze (exp_name G operand)
      \<and> 7 < length (exp_name G operand) \<and> exp_name G operand ! 7 = CHR '' ''
      \<and> \<not> (\<exists>node\<in>set (walk G (self_parsed s)). mutating_node G node)"
  then have g: "startswith (upper (exp_name G operand)) ''ANALYZE ''"
    unfolding analyze_guard by simp
  show r: "SQLStatement_is_mutating (Suc fuel) G s =
        (case SQLStatement_init G (FromText (drop 8 (exp_name G operand))) (self_engine s) of
           Inl ex \<Rightarrow> Some (Inl ex)
         | Inr inner \<Rightarrow> SQLStatement_is_mutating fuel G inner)"
    using h g by (intro is_mutating_analyze) simp_all
  fix inner
  assume "SQLStatement_init G (FromText (drop 8 (exp_name G operand))) (self_engine s)
              = Inr inner
            \<and> (\<exists>node\<in>set (walk G (self_parsed inner)). mutating_node G node)"
  then show "SQLStatement_is_mutating (Suc fuel) G s = Some (Inr True)"
    using r is_mutating_node_found[of G inner fuel] by simp
next
  assume h: "self_dialect s = Some POSTGRES \<and> exp_type G (self_parsed s) = exp_Command
      \<and> exp_name G (self_parsed s) = ''EXPLAIN''
      \<and> exp_expression G (self_parsed s) = ArgExp operand
      \<and> begins_with_analyze (exp_name G operand)
      \<and> \<not> (7 < length (exp_name G operand) \<and> exp_name G operand ! 7 = CHR '' '')
      \<and> \<not> (\<exists>node\<in>set (walk G (self_parsed s)). mutating_node G node)"
  then have "\<not> startswith (upper (exp_name G operand)) ''ANALYZE ''"
    unfolding analyze_guard by simp
  with h show "SQLStatement_is_mutating fuel G s = Some (Inr False)"
    using is_mutating_no_analyze[of G s operand fuel] by simp
next
  assume "self_dialect s \<noteq> Some POSTGRES"
  then show "SQLStatement_is_mutating 0 G s
          = Some (Inr (\<exists>node\<in>set (walk G (self_parsed s)). mutating_node G node))"
    by (intro is_mutating_no_explain) simp
next
  assume "self_dialect s \<noteq> Some POSTGRES"
  then show "is_mutating_body recurse G s
          = Some (Inr (\<exists>node\<in>set (walk G (self_parsed s)). mutating_node G node))"
    by (auto simp: is_mutating_body_def)
qed

theorem explain_analyze_recursion_witness:
  "SQLStatement_init stub (FromText ''EXPLAIN ANALYZE DELETE FROM t'') ''postgresql'' =
     Inr \<lparr>self_parsed = tree_explain_analyze_delete, self_engine = ''postgresql'',
          self_tables = {}, self_dialect = Some POSTGRES\<rparr>
   \<and> SQLStatement_is_mutating 1 stub
        \<lparr>self_parsed = tree_explain_analyze_delete, self_engine = ''postgresql'',
         self_tables = {}, self_dialect = Some POSTGRES\<rparr> = Some (Inr True)
   \<and> SQLStatement_init stub (FromText ''EXPLAIN analyze DELETE FROM t'') ''postgresql'' =
     Inr \<lparr>self_parsed = tree_explain_operand ''analyze DELETE FROM t'',
          self_engine = ''postgresql'', self_tables = {}, self_dialect = Some POSTGRES\<rparr>
   \<and> SQLStatement_is_mutating 1 stub
        \<lparr>self_parsed = tree_explain_operand ''analyze DELETE FROM t'',
         self_engine = ''postgresql'', self_tables = {}, self_dialect = Some POSTGRES\<rparr>
       = Some (Inr True)
   \<and> SQLStatement_init stub (FromText explain_analyze_newline_delete) ''postgresql'' =
     Inr \<lparr>self_parsed = tree_explain_operand analyze_newline_delete,
          self_engine = ''postgresql'', self_tables = {}, self_dialect = Some POSTGRES\<rparr>
   \<and> SQLStatement_is_mutating 1 stub
        \<lparr>self_parsed = tree_explain_operand analyze_newline_delete,
         self_engine = ''postgresql'', self_tables = {}, self_dialect = Some POSTGRES\<rparr>
       = Some (Inr False)
   \<and> (case SQLStatement_init stub (FromText (drop 8 analyze_newline_delete)) ''postgresql'' of
         Inl ex \<Rightarrow> Some (Inl ex) | Inr st \<Rightarrow> SQLStatement_is_mutating 0 stub st)
       = Some (Inr True)
   \<and> SQLStatement_init stub (FromText ''EXPLAIN ANALYZE DELETE FROM t'') ''mysql'' =
     Inr \<lparr>self_parsed = tree_explain_analyze_delete, self_engine = ''mysql'',
          self_tables = {}, self_dialect = Some MYSQL\<rparr>
   \<and> SQLStatement_is_mutating 0 stub
        \<lparr>self_parsed = tree_explain_analyze_delete, self_engine = ''mysql'',
         self_tables = {}, self_dialect = Some MYSQL\<rparr> = Some (Inr False)"
proof -
  let ?pg = "\<lparr>self_parsed = tree_explain_analyze_delete, self_engine = ''postgresql'',
         self_tables = {}, self_dialect = Some POSTGRES\<rparr>"
  let ?lc = "\<lparr>self_parsed = tree_explain_operand ''analyze DELETE FROM t'',
         self_engine = ''postgresql'', self_tables = {}, self_dialect = Some POSTGRES\<rparr>"
  let ?nl = "\<lparr>self_parsed = tree_explain_operand analyze_newline_delete,
         self_engine = ''postgresql'', self_tables = {}, self_dialect = Some POSTGRES\<rparr>"
  let ?my = "\<lparr>self_parsed = tree_explain_analyze_delete, self_engine = ''mysql'',
         self_tables = {}, self_dialect = Some MYSQL\<rparr>"
  let ?inner = "\<lparr>self_parsed = tree_delete, self_engine = ''postgresql'',
         self_tables = {\<lparr>table = ''t'', schema = None, catalog = None\<rparr>},
         self_dialect = Some POSTGRES\<rparr>"
  have i1: "SQLStatement_init stub (FromText ''EXPLAIN ANALYZE DELETE FROM t'') ''postgresql''
      = Inr ?pg"
    by (simp add: init_eval)
  have i2: "SQLStatement_init stub (FromText ''EXPLAIN ANALYZE DELETE FROM t'') ''mysql''
      = Inr ?my"
    by (simp add: init_eval)
  have i3: "SQLStatement_init stub (FromText ''EXPLAIN analyze DELETE FROM t'') ''postgresql''
      = Inr ?lc"
    by (simp add: init_eval)
  have i4: "SQLStatement_init stub (FromText explain_analyze_newline_delete) ''postgresql''
      = Inr ?nl"
    by (simp add: init_eval)
  have i5: "SQLStatement_init stub (FromText ''DELETE FROM t'') ''postgresql'' = Inr ?inner"
    by (simp add: init_eval)
  have found: "\<exists>node\<in>set (walk stub (self_parsed ?inner)). mutating_node stub node"
    by (simp add: stub_trees mutating_node_def stub_fields)
  have nomut: "\<not> (\<exists>node\<in>set (walk stub (tree_explain_operand operand)). mutating_node stub node)"
    for operand
    by (simp add: stub_fields stub_trees mutating_node_def)
  have same: "tree_explain_analyze_delete = tree_explain_operand ''ANALYZE DELETE FROM t''"
    by (simp add: stub_trees)
  have rec: "SQLStatement_is_mutating (Suc 0) stub
        \<lparr>self_parsed = tree_explain_operand operand, self_engine = ''postgresql'',
         self_tables = {}, self_dialect = Some POSTGRES\<rparr> = Some (Inr True)"
    if "begins_with_analyze operand \<and> 7 < length operand \<and> operand ! 7 = CHR '' ''"
      and "drop 8 operand = ''DELETE FROM t''" for operand
  proof -
    let ?st = "\<lparr>self_parsed = tree_explain_operand operand, self_engine = ''postgresql'',
         self_tables = {}, self_dialect = Some POSTGRES\<rparr>"
    have h: "self_dialect ?st = Some POSTGRES \<and> exp_type stub (self_parsed ?st) = exp_Command
      \<and> exp_name stub (self_parsed ?st) = ''EXPLAIN''
      \<and> exp_expression stub (self_parsed ?st) = ArgExp (ast_string operand)
      \<and> begins_with_analyze (exp_name stub (ast_string operand))
      \<and> 7 < length (exp_name stub (ast_string operand))
      \<and> exp_name stub (ast_string operand) ! 7 = CHR '' ''
      \<and> \<not> (\<exists>node\<in>set (walk stub (self_parsed ?st)). mutating_node stub node)"
      using that(1) nomut[of operand]
      by (simp add: stub_fields tree_explain_operand_def ast_string_def)
    have inner: "SQLStatement_init stub
        (FromText (drop 8 (exp_name stub (ast_string operand)))) (self_engine ?st) = Inr ?inner
      \<and> (\<exists>node\<in>set (walk stub (self_parsed ?inner)). mutating_node stub node)"
      using that(2) i5 found by (simp add: stub_fields ast_string_def)
    show ?thesis
      using explain_analyze_recursion[where s = ?st and G = stub
          and operand = "ast_string operand" and fuel = 0,
          THEN conjunct1, rule_format, OF h, THEN conjunct2, rule_format, OF inner] .
  qed
  have m1: "SQLStatement_is_mutating (Suc 0) stub ?pg = Some (Inr True)"
    unfolding same
    by (rule rec) (simp_all add: begins_with_analyze_def same_letter_def)
  have m3: "SQLStatement_is_mutating (Suc 0) stub ?lc = Some (Inr True)"
    by (rule rec) (simp_all add: begins_with_analyze_def same_letter_def)
  have h4: "self_dialect ?nl = Some POSTGRES \<and> exp_type stub (self_parsed ?nl) = exp_Command
      \<and> exp_name stub (self_parsed ?nl) = ''EXPLAIN''
      \<and> exp_expression stub (self_parsed ?nl) = ArgExp (ast_string analyze_newline_delete)
      \<and> begins_with_analyze (exp_name stub (ast_string analyze_newline_delete))
      \<and> \<not> (7 < length (exp_name stub (ast_string analyze_newline_delete))
            \<and> exp_name stub (ast_string analyze_newline_delete) ! 7 = CHR '' '')
      \<and> \<not> (\<exists>node\<in>set (walk stub (self_parsed ?nl)). mutating_node stub node)"
    using nomut[of analyze_newline_delete]
    by (simp add: stub_fields tree_explain_operand_def ast_string_def
        analyze_newline_delete_def begins_with_analyze_def same_letter_def)
  have m4: "SQLStatement_is_mutating (Suc 0) stub ?nl = Some (Inr False)"
    using explain_analyze_recursion[where s = ?nl and G = stub
        and operand = "ast_string analyze_newline_delete" and fuel = "Suc 0",
        THEN conjunct2, THEN conjunct1] h4
    by (rule mp)
  have d: "drop 8 analyze_newline_delete = ''DELETE FROM t''"
    by (simp add: analyze_newline_delete_def)
  have m5: "(case SQLStatement_init stub (FromText (drop 8 analyze_newline_delete)) ''postgresql'' of
         Inl ex \<Rightarrow> Some (Inl ex) | Inr st \<Rightarrow> SQLStatement_is_mutating 0 stub st)
       = Some (Inr True)"
    unfolding d i5 sum.case using found by (rule is_mutating_node_found)
  have h2: "self_dialect ?my \<noteq> Some POSTGRES" by simp
  have m2: "SQLStatement_is_mutating 0 stub ?my = Some (Inr False)"
    using explain_analyze_recursion[where s = ?my and G = stub and recurse = "\<lambda>s. None",
        THEN conjunct2, THEN conjunct2, rule_format, OF h2, THEN conjunct1]
      nomut[of "''ANALYZE DELETE FROM t''"]
    unfolding same by simp
  show ?thesis unfolding One_nat_def by (intro conjI) (rule i1 m1 i3 m3 i4 m4 m5 i2 m2)+
qed



end
